theory Spec2Isabelle
  imports Complex_Main "HOL-Library.Option_ord"
begin

section \<open>SQL values: NULL and three-valued logic\<close>

text \<open>
  The pipeline is Python that builds SQL text and hands it to an embedded columnar engine.
  Every column of a parquet batch is nullable, so a cell is an \<open>option\<close>: \<open>None\<close> is NULL.
  A comparison with NULL is NULL, \<open>AND\<close>/\<open>OR\<close>/\<open>NOT\<close> follow Kleene's tables, a \<open>WHERE\<close>
  clause and a \<open>CASE WHEN\<close> branch fire only on TRUE.  Numbers are exact rationals
  (the engine computes in DOUBLE; rounding is not modelled).
\<close>

type_synonym sql_bool = "bool option"
type_synonym sql_num = "rat option"

definition sql_and :: "sql_bool \<Rightarrow> sql_bool \<Rightarrow> sql_bool" where
  "sql_and a b =
     (if a = Some False \<or> b = Some False then Some False
      else if a = Some True \<and> b = Some True then Some True
      else None)"

definition sql_or :: "sql_bool \<Rightarrow> sql_bool \<Rightarrow> sql_bool" where
  "sql_or a b =
     (if a = Some True \<or> b = Some True then Some True
      else if a = Some False \<and> b = Some False then Some False
      else None)"

definition sql_not :: "sql_bool \<Rightarrow> sql_bool" where
  "sql_not a = (case a of None \<Rightarrow> None | Some v \<Rightarrow> Some (\<not> v))"

definition is_true :: "sql_bool \<Rightarrow> bool" where
  "is_true a = (a = Some True)"

definition sql_gt :: "('a::linorder) option \<Rightarrow> 'a option \<Rightarrow> sql_bool" where
  "sql_gt x y = (case (x, y) of (Some a, Some b) \<Rightarrow> Some (a > b) | _ \<Rightarrow> None)"

definition sql_lt :: "('a::linorder) option \<Rightarrow> 'a option \<Rightarrow> sql_bool" where
  "sql_lt x y = (case (x, y) of (Some a, Some b) \<Rightarrow> Some (a < b) | _ \<Rightarrow> None)"

definition sql_eq :: "'a option \<Rightarrow> 'a option \<Rightarrow> sql_bool" where
  "sql_eq x y = (case (x, y) of (Some a, Some b) \<Rightarrow> Some (a = b) | _ \<Rightarrow> None)"

definition sql_sub :: "sql_num \<Rightarrow> sql_num \<Rightarrow> sql_num" where
  "sql_sub x y = (case (x, y) of (Some a, Some b) \<Rightarrow> Some (a - b) | _ \<Rightarrow> None)"

definition sql_mul :: "sql_num \<Rightarrow> sql_num \<Rightarrow> sql_num" where
  "sql_mul x y = (case (x, y) of (Some a, Some b) \<Rightarrow> Some (a * b) | _ \<Rightarrow> None)"

text \<open>Division: the engine raises nothing on a zero divisor, the quotient is NULL.\<close>

definition sql_div :: "sql_num \<Rightarrow> sql_num \<Rightarrow> sql_num" where
  "sql_div x y =
     (case (x, y) of
        (Some a, Some b) \<Rightarrow> if b = 0 then None else Some (a / b)
      | _ \<Rightarrow> None)"

text \<open>\<open>x IN (v1, ..., vn)\<close> for a list of non-NULL literals.\<close>

definition sql_in :: "'a option \<Rightarrow> 'a list \<Rightarrow> sql_bool" where
  "sql_in x vs = (case x of None \<Rightarrow> None | Some a \<Rightarrow> Some (a \<in> set vs))"

text \<open>
  Aggregates: \<open>SUM\<close> and \<open>AVG\<close> skip NULL inputs and are NULL when nothing is left
  (in particular over no rows); \<open>COUNT(*)\<close> counts rows and is never NULL.
\<close>

definition sql_sum :: "('a::monoid_add) option list \<Rightarrow> 'a option" where
  "sql_sum xs =
     (let ys = List.map_filter id xs in if ys = [] then None else Some (sum_list ys))"

definition sql_avg :: "sql_num list \<Rightarrow> sql_num" where
  "sql_avg xs =
     (let ys = List.map_filter id xs
      in if ys = [] then None else Some (sum_list ys / of_nat (length ys)))"

definition sql_count :: "'a list \<Rightarrow> int" where
  "sql_count xs = int (length xs)"

text \<open>\<open>GROUP BY key\<close> with \<open>COUNT(*)\<close>: one row per distinct key.\<close>

definition group_count :: "'a list \<Rightarrow> ('a \<times> int) list" where
  "group_count ks = map (\<lambda>k. (k, int (count_list ks k))) (remdups ks)"

section \<open>Timestamps\<close>

text \<open>
  A TIMESTAMP is a civil date and the microseconds since midnight.
  \<open>date_part('epoch', t)\<close> is the number of seconds since 1970-01-01 00:00:00.
\<close>

record timestamp =
  ts_year :: int
  ts_month :: int
  ts_day :: int
  ts_micros :: int

definition mk_ts :: "int \<Rightarrow> int \<Rightarrow> int \<Rightarrow> int \<Rightarrow> timestamp" where
  "mk_ts y m d us = \<lparr>ts_year = y, ts_month = m, ts_day = d, ts_micros = us\<rparr>"

definition days_from_civil :: "int \<Rightarrow> int \<Rightarrow> int \<Rightarrow> int" where
  "days_from_civil y m d =
     (let y' = (if m \<le> 2 then y - 1 else y);
          era = y' div 400;
          yoe = y' - era * 400;
          mp = (m + 9) mod 12;
          doy = (153 * mp + 2) div 5 + d - 1;
          doe = yoe * 365 + yoe div 4 - yoe div 100 + doy
      in era * 146097 + doe - 719468)"

definition epoch :: "timestamp \<Rightarrow> rat" where
  "epoch t =
     of_int (days_from_civil (ts_year t) (ts_month t) (ts_day t)) * 86400
       + of_int (ts_micros t) / 1000000"

definition date_part_epoch :: "timestamp option \<Rightarrow> sql_num" where
  "date_part_epoch t = map_option epoch t"

text \<open>\<open>t >= literal\<close>: timestamps compare field by field, most significant first.\<close>

definition ts_ge :: "timestamp option \<Rightarrow> timestamp \<Rightarrow> sql_bool" where
  "ts_ge t lit =
     (case t of
        None \<Rightarrow> None
      | Some a \<Rightarrow>
          Some (ts_year a > ts_year lit \<or>
                (ts_year a = ts_year lit \<and>
                 (ts_month a > ts_month lit \<or>
                  (ts_month a = ts_month lit \<and>
                   (ts_day a > ts_day lit \<or>
                    (ts_day a = ts_day lit \<and> ts_micros a \<ge> ts_micros lit)))))))"

definition sql_month :: "timestamp option \<Rightarrow> int option" where
  "sql_month t = map_option ts_month t"

definition is_leap :: "int \<Rightarrow> bool" where
  "is_leap y = (y mod 4 = 0 \<and> (y mod 100 \<noteq> 0 \<or> y mod 400 = 0))"

definition month_days :: "int \<Rightarrow> int \<Rightarrow> int" where
  "month_days y m =
     (if m = 2 then (if is_leap y then 29 else 28)
      else if m = 4 \<or> m = 6 \<or> m = 9 \<or> m = 11 then 30
      else 31)"

text \<open>
  The engine stores a TIMESTAMP as a 64-bit count of microseconds since the epoch; the
  finite values run from 290309-12-22 (BC) 00:00:00 to 294247-01-10 04:00:54.775806.
\<close>

definition epoch_micros :: "timestamp \<Rightarrow> int" where
  "epoch_micros t =
     days_from_civil (ts_year t) (ts_month t) (ts_day t) * 86400000000 + ts_micros t"

definition in_timestamp_range :: "timestamp \<Rightarrow> bool" where
  "in_timestamp_range t \<longleftrightarrow>
     - 9223372022400000000 \<le> epoch_micros t \<and> epoch_micros t \<le> 9223372036854775806"

section \<open>The canonical trip record\<close>

text \<open>The columns every query of \<^verbatim>\<open>process_batch\<close> and \<^verbatim>\<open>impute_december\<close> writes.\<close>

record trip =
  pickup_time :: "timestamp option"
  dropoff_time :: "timestamp option"
  pickup_loc :: "int option"
  dropoff_loc :: "int option"
  trip_distance :: sql_num
  fare :: sql_num
  total_amount :: sql_num
  congestion_surcharge :: sql_num
  taxi_type :: string

section \<open>Phase 1: the anomaly classifier of \<^verbatim>\<open>process_batch\<close>\<close>

text \<open>
  \<^verbatim>\<open>metrics\<close>: \<open>(date_part('epoch', dropoff_time) - date_part('epoch', pickup_time)) / 3600.0\<close>.
\<close>

definition duration_hrs :: "trip \<Rightarrow> sql_num" where
  "duration_hrs r =
     sql_div (sql_sub (date_part_epoch (dropoff_time r)) (date_part_epoch (pickup_time r)))
       (Some 3600)"

text \<open>
  \<^verbatim>\<open>calc\<close>: \<open>CASE WHEN duration_hrs > 0 THEN trip_distance / duration_hrs ELSE 0 END\<close>.
\<close>

definition speed_mph :: "trip \<Rightarrow> sql_num" where
  "speed_mph r =
     (if is_true (sql_gt (duration_hrs r) (Some 0))
      then sql_div (trip_distance r) (duration_hrs r)
      else Some 0)"

text \<open>\<^verbatim>\<open>flagged\<close>: the three anomaly flags.\<close>

definition is_physics_fail :: "trip \<Rightarrow> sql_bool" where
  "is_physics_fail r =
     sql_and (sql_gt (speed_mph r) (Some 65)) (sql_gt (trip_distance r) (Some 1))"

definition is_teleporter :: "trip \<Rightarrow> sql_bool" where
  "is_teleporter r =
     sql_and (sql_lt (duration_hrs r) (Some (1 / 60))) (sql_gt (fare r) (Some 20))"

definition is_stationary :: "trip \<Rightarrow> sql_bool" where
  "is_stationary r =
     sql_and (sql_eq (trip_distance r) (Some 0)) (sql_gt (fare r) (Some 0))"

text \<open>The two filters that replace \<^verbatim>\<open>{condition_logic}\<close>.\<close>

definition audit_logic :: "trip \<Rightarrow> sql_bool" where
  "audit_logic r = sql_or (sql_or (is_physics_fail r) (is_teleporter r)) (is_stationary r)"

definition clean_logic :: "trip \<Rightarrow> sql_bool" where
  "clean_logic r = sql_not (audit_logic r)"

definition clean_rows :: "trip list \<Rightarrow> trip list" where
  "clean_rows rs = filter (\<lambda>r. is_true (clean_logic r)) rs"

definition audit_rows :: "trip list \<Rightarrow> trip list" where
  "audit_rows rs = filter (\<lambda>r. is_true (audit_logic r)) rs"

section \<open>Phase 1: batches on disk and the run loop\<close>

text \<open>Python's \<^verbatim>\<open>sub in s\<close> on strings, and \<^verbatim>\<open>os.path.basename\<close>.\<close>

fun contains :: "string \<Rightarrow> string \<Rightarrow> bool" where
  "contains sub [] = (sub = [])"
| "contains sub (c # cs) = (take (length sub) (c # cs) = sub \<or> contains sub cs)"

definition basename :: "string \<Rightarrow> string" where
  "basename p = rev (takeWhile (\<lambda>c. c \<noteq> CHR ''/'') (rev p))"

text \<open>
  A raw parquet row.  A yellow batch has the \<^verbatim>\<open>tpep_*\<close> timestamp columns, a green batch
  the \<^verbatim>\<open>lpep_*\<close> ones; a column the file does not have is NULL when several files are
  read with \<^verbatim>\<open>union_by_name\<close>.
\<close>

record raw_row =
  tpep_pickup_datetime :: "timestamp option"
  tpep_dropoff_datetime :: "timestamp option"
  lpep_pickup_datetime :: "timestamp option"
  lpep_dropoff_datetime :: "timestamp option"
  PULocationID :: "int option"
  DOLocationID :: "int option"
  raw_trip_distance :: sql_num
  fare_amount :: sql_num
  raw_total_amount :: sql_num
  raw_congestion_surcharge :: sql_num

datatype dialect = Yellow | Green

record parquet =
  pq_schema :: dialect
  pq_rows :: "raw_row list"

text \<open>
  What the engine raises: \<open>IOError\<close> for a file it cannot read (or a glob that matches
  nothing), \<open>BinderError\<close> for a column the file does not have, \<open>ConversionError\<close> for
  a date and time outside the TIMESTAMP range.
\<close>

datatype error = IOError | BinderError | ConversionError

text \<open>A file of \<^verbatim>\<open>raw_data\<close>: its path and its content (\<open>None\<close>: not a readable parquet file).\<close>

type_synonym disk_file = "string \<times> parquet option"

definition dialect_of :: "string \<Rightarrow> dialect" where
  "dialect_of filename = (if contains ''yellow'' filename then Yellow else Green)"

definition dialect_name :: "dialect \<Rightarrow> string" where
  "dialect_name d = (case d of Yellow \<Rightarrow> ''yellow'' | Green \<Rightarrow> ''green'')"

text \<open>The \<^verbatim>\<open>raw_data\<close> CTE: the dialect picks the timestamp columns, the rest maps 1:1.\<close>

definition normalize :: "dialect \<Rightarrow> raw_row \<Rightarrow> trip" where
  "normalize d x =
     \<lparr>pickup_time = (case d of Yellow \<Rightarrow> tpep_pickup_datetime x | Green \<Rightarrow> lpep_pickup_datetime x),
      dropoff_time = (case d of Yellow \<Rightarrow> tpep_dropoff_datetime x | Green \<Rightarrow> lpep_dropoff_datetime x),
      pickup_loc = PULocationID x,
      dropoff_loc = DOLocationID x,
      trip_distance = raw_trip_distance x,
      fare = fare_amount x,
      total_amount = raw_total_amount x,
      congestion_surcharge = raw_congestion_surcharge x,
      taxi_type = dialect_name d\<rparr>"

text \<open>One \<^verbatim>\<open>COPY (query WHERE cond) TO file\<close>: the rows the query yields, or the error raised.\<close>

definition batch_query :: "dialect \<Rightarrow> parquet option \<Rightarrow> (trip \<Rightarrow> sql_bool) \<Rightarrow> error + trip list" where
  "batch_query d content cond =
     (case content of
        None \<Rightarrow> Inl IOError
      | Some p \<Rightarrow>
          if pq_schema p \<noteq> d then Inl BinderError
          else Inr (filter (\<lambda>r. is_true (cond r)) (map (normalize d) (pq_rows p))))"

text \<open>The output directories: file name and rows, newest first; a write replaces the file.\<close>

record outputs =
  clean_data :: "(string \<times> trip list) list"
  audit_log :: "(string \<times> trip list) list"

definition empty_outputs :: outputs where
  "empty_outputs = \<lparr>clean_data = [], audit_log = []\<rparr>"

definition write_file :: "string \<Rightarrow> 'a \<Rightarrow> (string \<times> 'a) list \<Rightarrow> (string \<times> 'a) list" where
  "write_file name v dir = (name, v) # filter (\<lambda>e. fst e \<noteq> name) dir"

text \<open>
  \<^verbatim>\<open>process_batch\<close>: the clean export, then the audit export.  It has no handler, so an
  error of the engine leaves the function: the result is the state reached and the error
  raised, if any.
\<close>

definition process_batch :: "outputs \<Rightarrow> parquet option \<Rightarrow> string \<Rightarrow> outputs \<times> error option" where
  "process_batch st content filename =
     (let d = dialect_of filename in
      case batch_query d content clean_logic of
        Inl e \<Rightarrow> (st, Some e)
      | Inr c \<Rightarrow>
          (let st1 = st\<lparr>clean_data := write_file filename c (clean_data st)\<rparr> in
           case batch_query d content audit_logic of
             Inl e \<Rightarrow> (st1, Some e)
           | Inr a \<Rightarrow> (st1\<lparr>audit_log := write_file filename a (audit_log st1)\<rparr>, None)))"

text \<open>The loop \<^verbatim>\<open>for f in files: self.process_batch(f, os.path.basename(f))\<close> of \<^verbatim>\<open>run\<close>.\<close>

fun process_all :: "outputs \<Rightarrow> disk_file list \<Rightarrow> outputs \<times> error option" where
  "process_all st [] = (st, None)"
| "process_all st (f # fs) =
     (case process_batch st (snd f) (basename (fst f)) of
        (st', Some e) \<Rightarrow> (st', Some e)
      | (st', None) \<Rightarrow> process_all st' fs)"

section \<open>Phase 1: imputation of December 2025\<close>

text \<open>
  \<^verbatim>\<open>read_parquet(glob, union_by_name=True, filename=True)\<close>: every row of every matching
  file, tagged with the path of its file.  No matching file or an unreadable one is an
  \<open>IOError\<close>; the query names both \<^verbatim>\<open>tpep_*\<close> and \<^verbatim>\<open>lpep_*\<close> columns, so a glob result
  without a file of each dialect is a \<open>BinderError\<close>.
\<close>

fun read_all :: "disk_file list \<Rightarrow> error + (string \<times> raw_row) list" where
  "read_all [] = Inr []"
| "read_all (f # fs) =
     (case snd f of
        None \<Rightarrow> Inl IOError
      | Some p \<Rightarrow>
          (case read_all fs of
             Inl e \<Rightarrow> Inl e
           | Inr rs \<Rightarrow> Inr (map (\<lambda>x. (fst f, x)) (pq_rows p) @ rs)))"

definition has_dialect :: "dialect \<Rightarrow> disk_file list \<Rightarrow> bool" where
  "has_dialect d fs = list_ex (\<lambda>f. map_option pq_schema (snd f) = Some d) fs"

definition read_union :: "disk_file list \<Rightarrow> error + (string \<times> raw_row) list" where
  "read_union fs =
     (if fs = [] then Inl IOError
      else case read_all fs of
             Inl e \<Rightarrow> Inl e
           | Inr rs \<Rightarrow>
               if has_dialect Yellow fs \<and> has_dialect Green fs then Inr rs
               else Inl BinderError)"

definition coalesce :: "'a option \<Rightarrow> 'a option \<Rightarrow> 'a option" where
  "coalesce a b = (case a of None \<Rightarrow> b | Some v \<Rightarrow> Some v)"

text \<open>
  \<open>t + INTERVAL n YEAR\<close>: the year moves by \<open>n\<close>, month and time of day stay, and the
  day is cut to the length of the target month (29 February lands on 28 February).  A
  result outside the TIMESTAMP range is an error of the engine; NULL stays NULL.
\<close>

definition add_years :: "int \<Rightarrow> timestamp \<Rightarrow> error + timestamp" where
  "add_years n t =
     (let t' = t\<lparr>ts_year := ts_year t + n,
                 ts_day := min (ts_day t) (month_days (ts_year t + n) (ts_month t))\<rparr>
      in if in_timestamp_range t' then Inr t' else Inl ConversionError)"

definition plus_interval_year :: "timestamp option \<Rightarrow> int \<Rightarrow> error + timestamp option" where
  "plus_interval_year t n =
     (case t of
        None \<Rightarrow> Inr None
      | Some a \<Rightarrow> (case add_years n a of Inl e \<Rightarrow> Inl e | Inr b \<Rightarrow> Inr (Some b)))"

text \<open>
  The select list of either branch of the imputation query on one row; \<open>n\<close> is the year
  interval, \<open>fst fx\<close> the \<^verbatim>\<open>filename\<close> column.
\<close>

definition impute_row :: "int \<Rightarrow> string \<times> raw_row \<Rightarrow> error + trip" where
  "impute_row n fx =
     (let x = snd fx in
      case plus_interval_year (coalesce (tpep_pickup_datetime x) (lpep_pickup_datetime x)) n of
        Inl e \<Rightarrow> Inl e
      | Inr p \<Rightarrow>
          (case plus_interval_year
                  (coalesce (tpep_dropoff_datetime x) (lpep_dropoff_datetime x)) n of
             Inl e \<Rightarrow> Inl e
           | Inr d \<Rightarrow>
               Inr \<lparr>pickup_time = p,
                    dropoff_time = d,
                    pickup_loc = PULocationID x,
                    dropoff_loc = DOLocationID x,
                    trip_distance = raw_trip_distance x,
                    fare = fare_amount x,
                    total_amount = raw_total_amount x,
                    congestion_surcharge = raw_congestion_surcharge x,
                    taxi_type = (if contains ''yellow'' (fst fx) then ''yellow'' else ''green'')\<rparr>))"

text \<open>The select list over the sampled rows: the first error ends the query.\<close>

fun impute_select :: "int \<Rightarrow> (string \<times> raw_row) list \<Rightarrow> error + trip list" where
  "impute_select n [] = Inr []"
| "impute_select n (fx # rest) =
     (case impute_row n fx of
        Inl e \<Rightarrow> Inl e
      | Inr r \<Rightarrow> (case impute_select n rest of Inl e \<Rightarrow> Inl e | Inr rs \<Rightarrow> Inr (r # rs)))"

definition imputed_name :: string where
  "imputed_name = ''imputed_dec_2025.parquet''"

text \<open>
  \<^verbatim>\<open>impute_december\<close>.  \<^verbatim>\<open>USING SAMPLE p%\<close> is the engine's operator, not code of the
  repository: it is the parameter \<open>smp\<close>, applied to the random source the engine holds
  for that scan (\<open>g23\<close>, \<open>g24\<close>), the percentage and the rows read.  The query text names
  no seed.  The sample is taken from the rows read, before the select list.  An error is
  caught and printed; the function returns normally with nothing written.
\<close>

definition impute_december ::
  "('g \<Rightarrow> nat \<Rightarrow> (string \<times> raw_row) list \<Rightarrow> (string \<times> raw_row) list) \<Rightarrow> 'g \<Rightarrow> 'g \<Rightarrow>
   disk_file list \<Rightarrow> disk_file list \<Rightarrow> outputs \<Rightarrow> outputs" where
  "impute_december smp g23 g24 src23 src24 st =
     (case read_union src23 of
        Inl e \<Rightarrow> st
      | Inr r23 \<Rightarrow>
          (case read_union src24 of
             Inl e \<Rightarrow> st
           | Inr r24 \<Rightarrow>
               (case impute_select 2 (smp g23 30 r23) of
                  Inl e \<Rightarrow> st
                | Inr a \<Rightarrow>
                    (case impute_select 1 (smp g24 70 r24) of
                       Inl e \<Rightarrow> st
                     | Inr b \<Rightarrow>
                         st\<lparr>clean_data := write_file imputed_name (a @ b) (clean_data st)\<rparr>))))"

text \<open>
  \<^verbatim>\<open>run\<close>: the output directories are reset, the 2025 batches (the sorted glob result
  \<open>files\<close>) are processed in order, and December is imputed unless some path holds
  \<^verbatim>\<open>2025-12\<close>.  \<open>src23\<close> and \<open>src24\<close> are the files the two globs of the imputation match.
\<close>

definition has_december :: "disk_file list \<Rightarrow> bool" where
  "has_december files = list_ex (\<lambda>f. contains ''2025-12'' (fst f)) files"

definition run ::
  "('g \<Rightarrow> nat \<Rightarrow> (string \<times> raw_row) list \<Rightarrow> (string \<times> raw_row) list) \<Rightarrow> 'g \<Rightarrow> 'g \<Rightarrow>
   disk_file list \<Rightarrow> disk_file list \<Rightarrow> disk_file list \<Rightarrow> outputs \<times> error option" where
  "run smp g23 g24 files src23 src24 =
     (case process_all empty_outputs files of
        (st, Some e) \<Rightarrow> (st, Some e)
      | (st, None) \<Rightarrow>
          (if \<not> has_december files then impute_december smp g23 g24 src23 src24 st else st,
           None))"

text \<open>Every later phase reads \<^verbatim>\<open>clean_data/*.parquet\<close> as one table.\<close>

definition clean_partition :: "outputs \<Rightarrow> trip list" where
  "clean_partition st = concat (map snd (clean_data st))"

section \<open>Zone sets\<close>

definition CONGESTION_ZONE_IDS :: "int list" where
  "CONGESTION_ZONE_IDS =
     [12, 13, 43, 45, 48, 50, 68, 79, 87, 88, 90, 100, 107, 113, 114, 116, 120, 125,
      137, 140, 141, 142, 143, 144, 148, 151, 152, 153, 158, 161, 162, 163, 164, 166,
      170, 186, 209, 211, 224, 229, 230, 231, 232, 233, 234, 236, 237, 238, 239, 243,
      244, 246, 249, 261, 262, 263]"

definition BORDER_ZONES :: "int list" where
  "BORDER_ZONES =
     [238, 239, 263, 262, 236, 237, 74, 75, 142, 143, 43, 48, 50, 100, 161, 162, 163, 164, 230]"

section \<open>Phase 2: fraud, fairness and leakage\<close>

text \<open>
  The speed of \<^verbatim>\<open>analyze_fraud\<close>: \<open>trip_distance / (CASE WHEN d = 0 THEN 1 ELSE d END)\<close>
  with \<open>d\<close> the duration in hours.
\<close>

definition fraud_divisor :: "trip \<Rightarrow> sql_num" where
  "fraud_divisor r =
     (if is_true (sql_eq (duration_hrs r) (Some 0)) then Some 1 else duration_hrs r)"

definition fraud_speed :: "trip \<Rightarrow> sql_num" where
  "fraud_speed r = sql_div (trip_distance r) (fraud_divisor r)"

definition is_speeding :: "trip \<Rightarrow> sql_bool" where
  "is_speeding r = sql_gt (fraud_speed r) (Some 100)"

definition is_stationary_charge :: "trip \<Rightarrow> sql_bool" where
  "is_stationary_charge r =
     sql_and (sql_eq (trip_distance r) (Some 0)) (sql_gt (congestion_surcharge r) (Some 0))"

text \<open>The \<open>CASE\<close> of the select list, on the values of its two conditions.\<close>

definition violation_case :: "sql_bool \<Rightarrow> sql_bool \<Rightarrow> string" where
  "violation_case a b =
     (if is_true a then ''Teleporter (>100mph)''
      else if is_true b then ''Stationary Charge''
      else ''Other'')"

definition violation_type :: "trip \<Rightarrow> string" where
  "violation_type r = violation_case (is_speeding r) (is_stationary_charge r)"

definition fraud_where :: "trip \<Rightarrow> sql_bool" where
  "fraud_where r = sql_or (is_speeding r) (is_stationary_charge r)"

text \<open>\<open>ORDER BY 2 DESC\<close>; the engine leaves the order of equal counts open.\<close>

definition order_by_count_desc :: "('a \<times> int) list \<Rightarrow> ('a \<times> int) list" where
  "order_by_count_desc xs = rev (sort_key snd xs)"

definition analyze_fraud :: "trip list \<Rightarrow> (string \<times> int) list" where
  "analyze_fraud clean =
     order_by_count_desc
       (group_count (map violation_type (filter (\<lambda>r. is_true (fraud_where r)) clean)))"

text \<open>\<^verbatim>\<open>analyze_fairness\<close>: one query, its \<open>WHERE fare > 0\<close> in front of both aggregates.\<close>

definition tip_ratio :: "trip \<Rightarrow> sql_num" where
  "tip_ratio r =
     (if is_true (sql_gt (fare r) (Some 0))
      then sql_div (sql_sub (sql_sub (total_amount r) (fare r)) (congestion_surcharge r)) (fare r)
      else Some 0)"

definition is_short_trip :: "trip \<Rightarrow> sql_bool" where
  "is_short_trip r =
     sql_and (sql_lt (trip_distance r) (Some 2)) (sql_in (dropoff_loc r) CONGESTION_ZONE_IDS)"

record fairness =
  avg_tip_percent :: sql_num
  short_trip_count :: "int option"

text \<open>The rows the \<open>WHERE fare > 0\<close> of the query lets through.\<close>

definition fairness_rows :: "trip list \<Rightarrow> trip list" where
  "fairness_rows clean = filter (\<lambda>r. is_true (sql_gt (fare r) (Some 0))) clean"

definition analyze_fairness :: "trip list \<Rightarrow> fairness" where
  "analyze_fairness clean =
     (let rows = fairness_rows clean in
      \<lparr>avg_tip_percent = sql_mul (sql_avg (map tip_ratio rows)) (Some 100),
       short_trip_count =
         sql_sum (map (\<lambda>r. Some (if is_true (is_short_trip r) then 1 else 0)) rows)\<rparr>)"

text \<open>\<^verbatim>\<open>audit_leakage\<close>, first query.\<close>

definition eligible :: "trip \<Rightarrow> sql_bool" where
  "eligible r =
     sql_and
       (sql_and (ts_ge (pickup_time r) (mk_ts 2025 1 5 0))
          (sql_not (sql_in (pickup_loc r) CONGESTION_ZONE_IDS)))
       (sql_in (dropoff_loc r) CONGESTION_ZONE_IDS)"

definition eligible_trips :: "trip list \<Rightarrow> trip list" where
  "eligible_trips clean = filter (\<lambda>r. is_true (eligible r)) clean"

definition is_compliant :: "trip \<Rightarrow> bool" where
  "is_compliant r = is_true (sql_gt (congestion_surcharge r) (Some 0))"

record leakage =
  total_eligible_trips :: int
  compliant_trips :: "int option"
  compliance_rate_pct :: sql_num
  estimated_revenue_loss :: sql_num

definition audit_leakage :: "trip list \<Rightarrow> leakage" where
  "audit_leakage clean =
     (let e = eligible_trips clean;
          n = sql_count e;
          s = sql_sum (map (\<lambda>r. Some (if is_compliant r then 1 else 0)) e)
      in \<lparr>total_eligible_trips = n,
          compliant_trips = s,
          compliance_rate_pct =
            sql_div (sql_mul (map_option of_int s) (Some 100)) (Some (of_int n)),
          estimated_revenue_loss =
            sql_mul (sql_sub (Some (of_int n)) (map_option of_int s)) (Some (275 / 100))\<rparr>)"

section \<open>Phase 3: the border effect\<close>

record border_row =
  ZoneID :: "int option"
  pct_change :: sql_num
  location_type :: string

definition q_24 :: "raw_row list \<Rightarrow> (int option \<times> int) list" where
  "q_24 raw =
     group_count (map DOLocationID (filter (\<lambda>x. is_true (sql_in (DOLocationID x) BORDER_ZONES)) raw))"

definition q_25 :: "trip list \<Rightarrow> (int option \<times> int) list" where
  "q_25 clean =
     group_count
       (map dropoff_loc
          (filter (\<lambda>r. is_true (sql_and (sql_in (dropoff_loc r) BORDER_ZONES)
                                   (sql_in (sql_month (pickup_time r)) [1, 2, 3])))
             clean))"

definition border_select :: "int option \<times> int \<Rightarrow> int option \<times> int \<Rightarrow> border_row" where
  "border_select a b =
     \<lparr>ZoneID = fst a,
      pct_change =
        sql_mul (sql_div (Some (of_int (snd b - snd a))) (Some (of_int (snd a)))) (Some 100),
      location_type =
        (if is_true (sql_in (fst a) CONGESTION_ZONE_IDS) then ''Inside Zone'' else ''Outside Zone'')\<rparr>"

definition border_join ::
  "(int option \<times> int) list \<Rightarrow> (int option \<times> int) list \<Rightarrow> border_row list" where
  "border_join t24 t25 =
     concat (map (\<lambda>a. map (border_select a) (filter (\<lambda>b. is_true (sql_eq (fst a) (fst b))) t25)) t24)"

definition plot_border_effect :: "raw_row list \<Rightarrow> trip list \<Rightarrow> border_row list" where
  "plot_border_effect raw clean = rev (sort_key pct_change (border_join (q_24 raw) (q_25 clean)))"

section \<open>Example records\<close>

definition mk_trip ::
  "timestamp \<Rightarrow> timestamp \<Rightarrow> int \<Rightarrow> int \<Rightarrow> sql_num \<Rightarrow> sql_num \<Rightarrow> sql_num \<Rightarrow> sql_num \<Rightarrow> trip" where
  "mk_trip p d pl dl miles f tot sur =
     \<lparr>pickup_time = Some p, dropoff_time = Some d, pickup_loc = Some pl, dropoff_loc = Some dl,
      trip_distance = miles, fare = f, total_amount = tot, congestion_surcharge = sur,
      taxi_type = ''yellow''\<rparr>"

text \<open>10:00:00 to 10:10:00 on 2025-03-01, no distance, the fare column NULL.\<close>

definition trip_null_fare :: trip where
  "trip_null_fare =
     mk_trip (mk_ts 2025 3 1 36000000000) (mk_ts 2025 3 1 36600000000) 1 2
       (Some 0) None (Some 0) (Some 0)"

text \<open>Pickup and dropoff at the same instant, 5 miles.\<close>

definition trip_zero_duration :: trip where
  "trip_zero_duration =
     mk_trip (mk_ts 2025 3 1 36000000000) (mk_ts 2025 3 1 36000000000) 1 2
       (Some 5) (Some 10) (Some 12) (Some 0)"

text \<open>One mile in 18 seconds (200 mph), fare 5.\<close>

definition trip_short_fast :: trip where
  "trip_short_fast =
     mk_trip (mk_ts 2025 3 1 36000000000) (mk_ts 2025 3 1 36018000000) 1 2
       (Some 1) (Some 5) (Some 6) (Some 0)"

text \<open>The raw row of a yellow batch that normalizes to \<open>trip_null_fare\<close>, and a batch name.\<close>

definition raw_null_fare :: raw_row where
  "raw_null_fare =
     \<lparr>tpep_pickup_datetime = Some (mk_ts 2025 3 1 36000000000),
      tpep_dropoff_datetime = Some (mk_ts 2025 3 1 36600000000),
      lpep_pickup_datetime = None, lpep_dropoff_datetime = None,
      PULocationID = Some 1, DOLocationID = Some 2,
      raw_trip_distance = Some 0, fare_amount = None,
      raw_total_amount = Some 0, raw_congestion_surcharge = Some 0\<rparr>"

definition yellow_march :: string where
  "yellow_march = ''yellow_tripdata_2025-03.parquet''"

text \<open>One mile, ten minutes from \<open>p\<close>'s date at 10:00:00, as a yellow and as a green raw row.\<close>

definition raw_yellow :: "int \<Rightarrow> int \<Rightarrow> int \<Rightarrow> raw_row" where
  "raw_yellow y m d =
     \<lparr>tpep_pickup_datetime = Some (mk_ts y m d 36000000000),
      tpep_dropoff_datetime = Some (mk_ts y m d 36600000000),
      lpep_pickup_datetime = None, lpep_dropoff_datetime = None,
      PULocationID = Some 1, DOLocationID = Some 48,
      raw_trip_distance = Some 1, fare_amount = Some 8,
      raw_total_amount = Some 10, raw_congestion_surcharge = Some 0\<rparr>"

definition raw_green :: "int \<Rightarrow> int \<Rightarrow> int \<Rightarrow> raw_row" where
  "raw_green y m d =
     \<lparr>tpep_pickup_datetime = None, tpep_dropoff_datetime = None,
      lpep_pickup_datetime = Some (mk_ts y m d 36000000000),
      lpep_dropoff_datetime = Some (mk_ts y m d 36600000000),
      PULocationID = Some 1, DOLocationID = Some 50,
      raw_trip_distance = Some 1, fare_amount = Some 8,
      raw_total_amount = Some 10, raw_congestion_surcharge = Some 0\<rparr>"

definition yellow_file :: "string \<Rightarrow> raw_row list \<Rightarrow> disk_file" where
  "yellow_file name rs = (name, Some \<lparr>pq_schema = Yellow, pq_rows = rs\<rparr>)"

definition green_file :: "string \<Rightarrow> raw_row list \<Rightarrow> disk_file" where
  "green_file name rs = (name, Some \<lparr>pq_schema = Green, pq_rows = rs\<rparr>)"

definition dec_2023 :: "disk_file list" where
  "dec_2023 =
     [green_file ''raw_data/green_tripdata_2023-12.parquet'' [raw_green 2023 12 24],
      yellow_file ''raw_data/yellow_tripdata_2023-12.parquet'' [raw_yellow 2023 12 25]]"

definition dec_2024 :: "disk_file list" where
  "dec_2024 =
     [green_file ''raw_data/green_tripdata_2024-12.parquet'' [raw_green 2024 12 24],
      yellow_file ''raw_data/yellow_tripdata_2024-12.parquet'' [raw_yellow 2024 12 25]]"

text \<open>A 2023-12 source period of which only the yellow batch was downloaded.\<close>

definition yellow_only_2023 :: "disk_file list" where
  "yellow_only_2023 =
     [yellow_file ''raw_data/yellow_tripdata_2023-12.parquet'' [raw_yellow 2023 12 25]]"

text \<open>What \<^verbatim>\<open>read_parquet\<close> yields on the two globs: the rows with their file paths.\<close>

definition rows_dec_2023 :: "(string \<times> raw_row) list" where
  "rows_dec_2023 =
     [(''raw_data/green_tripdata_2023-12.parquet'', raw_green 2023 12 24),
      (''raw_data/yellow_tripdata_2023-12.parquet'', raw_yellow 2023 12 25)]"

definition rows_dec_2024 :: "(string \<times> raw_row) list" where
  "rows_dec_2024 =
     [(''raw_data/green_tripdata_2024-12.parquet'', raw_green 2024 12 24),
      (''raw_data/yellow_tripdata_2024-12.parquet'', raw_yellow 2024 12 25)]"

text \<open>
  The imputed record expected of \<open>raw_green\<close> and \<open>raw_yellow\<close> rows of a December: same
  day and time of day in December 2025, everything else carried over.
\<close>

definition imputed_trip :: "string \<Rightarrow> int \<Rightarrow> int \<Rightarrow> trip" where
  "imputed_trip ty d z =
     \<lparr>pickup_time = Some (mk_ts 2025 12 d 36000000000),
      dropoff_time = Some (mk_ts 2025 12 d 36600000000),
      pickup_loc = Some 1, dropoff_loc = Some z,
      trip_distance = Some 1, fare = Some 8, total_amount = Some 10,
      congestion_surcharge = Some 0, taxi_type = ty\<rparr>"

text \<open>Two batches of 2025: the first cannot be read, the second is a good yellow batch.\<close>

definition broken_january :: disk_file where
  "broken_january = (''raw_data/green_tripdata_2025-01.parquet'', None)"

definition good_february :: disk_file where
  "good_february = yellow_file ''raw_data/yellow_tripdata_2025-02.parquet'' [raw_yellow 2025 2 3]"

definition good_december :: disk_file where
  "good_december = yellow_file ''raw_data/yellow_tripdata_2025-12.parquet'' [raw_yellow 2025 12 3]"

text \<open>
  Trips of ten minutes and one mile on 2025-02-01 from zone 1 (outside the congestion zone)
  to zone \<open>z\<close>, with fare \<open>f\<close> and surcharge \<open>s\<close>; raw rows of 2024-02-01 dropped off in \<open>z\<close>.
\<close>

definition trip_to :: "int \<Rightarrow> rat \<Rightarrow> rat \<Rightarrow> trip" where
  "trip_to z f s =
     mk_trip (mk_ts 2025 2 1 36000000000) (mk_ts 2025 2 1 36600000000) 1 z
       (Some 1) (Some f) (Some (f + s + 2)) (Some s)"

definition raw_to :: "int \<Rightarrow> raw_row" where
  "raw_to z = (raw_yellow 2024 2 1)\<lparr>DOLocationID := Some z\<rparr>"

text \<open>Baseline drop-offs in zones 43, 48, 50; comparison drop-offs in zones 48, 50, 74.\<close>

definition baseline_rows :: "raw_row list" where
  "baseline_rows = [raw_to 43, raw_to 48, raw_to 48, raw_to 50]"

definition comparison_rows :: "trip list" where
  "comparison_rows = [trip_to 48 8 0, trip_to 50 8 0, trip_to 50 8 0, trip_to 50 8 0, trip_to 74 8 0]"

text \<open>100 eligible trips into zone 48, 80 of them with a surcharge.\<close>

definition hundred_entering :: "trip list" where
  "hundred_entering = replicate 80 (trip_to 48 8 (5 / 2)) @ replicate 20 (trip_to 48 8 0)"

text \<open>A sampler that keeps every row, for runs in which the sample plays no part.\<close>

definition keep_all :: "unit \<Rightarrow> nat \<Rightarrow> 'a list \<Rightarrow> 'a list" where
  "keep_all g p xs = xs"

section \<open>Theorems\<close>

lemmas sql_defs =
  sql_and_def sql_or_def sql_not_def sql_gt_def sql_lt_def sql_eq_def sql_div_def
  sql_sub_def sql_mul_def sql_in_def is_true_def

lemmas ts_defs = date_part_epoch_def epoch_def mk_ts_def days_from_civil_def Let_def

subsection \<open>The clean/audit split\<close>

lemma contains_yellow_march: "contains ''yellow'' yellow_march"
  by (simp add: yellow_march_def)

lemma normalize_raw_null_fare: "normalize Yellow raw_null_fare = trip_null_fare"
  by (simp add: normalize_def raw_null_fare_def trip_null_fare_def mk_trip_def dialect_name_def)

lemma duration_null_fare: "duration_hrs trip_null_fare = Some (1 / 6)"
  by (simp add: trip_null_fare_def mk_trip_def duration_hrs_def sql_defs ts_defs)

lemma flags_null_fare: "audit_logic trip_null_fare = None \<and> clean_logic trip_null_fare = None"
  by (simp add: clean_logic_def audit_logic_def is_physics_fail_def is_teleporter_def
      is_stationary_def speed_mph_def duration_null_fare sql_defs)
     (simp add: trip_null_fare_def mk_trip_def)

text \<open>
  C1.  The claim: every record a batch holds lands in exactly one of the clean and the
  audit export, records with NULL in a field the flags read included.  The code filters
  the clean export by \<open>NOT (flags)\<close> and the audit export by \<open>flags\<close>; on a record whose
  flags evaluate to NULL neither filter is TRUE.  Here the code runs on a yellow batch of
  one row with no distance and a NULL fare: both exports are written empty, the row is in
  neither.
\<close>

theorem null_flag_record_in_neither_export:
  "process_batch empty_outputs (Some \<lparr>pq_schema = Yellow, pq_rows = [raw_null_fare]\<rparr>) yellow_march
     = (\<lparr>clean_data = [(yellow_march, [])], audit_log = [(yellow_march, [])]\<rparr>, None)"
  by (simp add: process_batch_def batch_query_def dialect_of_def contains_yellow_march
      normalize_raw_null_fare flags_null_fare is_true_def write_file_def empty_outputs_def)

text \<open>
  What does hold of the split for every record: no record is in both exports; it is in the
  clean one exactly when all three flags are FALSE and in the audit one exactly when some
  flag is TRUE; and a record whose flags are not NULL is in exactly one.
\<close>

lemma clean_iff_all_false:
  "is_true (clean_logic r) \<longleftrightarrow>
     is_physics_fail r = Some False \<and> is_teleporter r = Some False \<and> is_stationary r = Some False"
  by (cases "is_physics_fail r"; cases "is_teleporter r"; cases "is_stationary r")
     (auto simp: clean_logic_def audit_logic_def sql_or_def sql_not_def is_true_def)

lemma audit_iff_some_true:
  "is_true (audit_logic r) \<longleftrightarrow>
     is_true (is_physics_fail r) \<or> is_true (is_teleporter r) \<or> is_true (is_stationary r)"
  by (cases "is_physics_fail r"; cases "is_teleporter r"; cases "is_stationary r")
     (auto simp: audit_logic_def sql_or_def is_true_def)

theorem split_exclusive_and_total_on_known_flags:
  "\<not> (is_true (clean_logic r) \<and> is_true (audit_logic r)) \<and>
   (is_true (clean_logic r) \<or> is_true (audit_logic r) \<longleftrightarrow> audit_logic r \<noteq> None)"
  by (cases "audit_logic r") (auto simp: clean_logic_def sql_not_def is_true_def)

subsection \<open>Speed at zero duration\<close>

lemma fraud_divisor_nonzero: "fraud_divisor r \<noteq> Some 0"
  by (auto simp: fraud_divisor_def sql_eq_def is_true_def split: option.splits)

lemma duration_zero_duration: "duration_hrs trip_zero_duration = Some 0"
  by (simp add: trip_zero_duration_def mk_trip_def duration_hrs_def sql_defs ts_defs)

text \<open>
  C2, the claim as stated fails in the classifier: of a record with pickup and dropoff at
  the same instant and 5 miles, \<^verbatim>\<open>process_batch\<close> computes the speed 0, not 5.
\<close>

theorem classifier_zero_duration_counterexample:
  "duration_hrs trip_zero_duration = Some 0 \<and>
   trip_distance trip_zero_duration = Some 5 \<and>
   speed_mph trip_zero_duration = Some 0"
  by (simp add: duration_zero_duration speed_mph_def sql_defs)
     (simp add: trip_zero_duration_def mk_trip_def)

text \<open>
  C2, amended.  For a record of duration exactly zero the fraud categorizer divides by the
  substituted 1, so its speed is the trip distance; the classifier takes the \<open>ELSE\<close>
  branch of its own guard and its speed is 0.  Neither divides by zero, on any record: the
  categorizer's divisor is never 0, and the classifier divides only by a duration above 0.
\<close>

theorem zero_duration_speed:
  "(duration_hrs r = Some 0 \<longrightarrow>
      fraud_divisor r = Some 1 \<and> fraud_speed r = trip_distance r \<and> speed_mph r = Some 0) \<and>
   fraud_divisor r \<noteq> Some 0 \<and>
   (speed_mph r \<noteq> Some 0 \<longrightarrow> (\<exists>d. duration_hrs r = Some d \<and> 0 < d))"
proof (intro conjI impI)
  assume z: "duration_hrs r = Some 0"
  show "fraud_divisor r = Some 1"
    using z by (simp add: fraud_divisor_def sql_eq_def is_true_def)
  then show "fraud_speed r = trip_distance r"
    by (cases "trip_distance r") (simp_all add: fraud_speed_def sql_div_def)
  show "speed_mph r = Some 0"
    using z by (simp add: speed_mph_def sql_gt_def is_true_def)
next
  show "fraud_divisor r \<noteq> Some 0"
    by (rule fraud_divisor_nonzero)
next
  assume "speed_mph r \<noteq> Some 0"
  then have "is_true (sql_gt (duration_hrs r) (Some 0))"
    by (auto simp: speed_mph_def split: if_splits)
  then show "\<exists>d. duration_hrs r = Some d \<and> 0 < d"
    by (cases "duration_hrs r") (auto simp: sql_gt_def is_true_def)
qed

theorem zero_duration_speed_witness:
  "duration_hrs trip_zero_duration = Some 0 \<and>
   fraud_speed trip_zero_duration = Some 5 \<and>
   speed_mph trip_zero_duration = Some 0 \<and>
   fraud_divisor trip_zero_duration \<noteq> Some 0"
  using zero_duration_speed [of trip_zero_duration] duration_zero_duration
  by (simp add: trip_zero_duration_def mk_trip_def)

subsection \<open>The fraud categorizer\<close>

lemma speeding_iff: "is_true (is_speeding r) \<longleftrightarrow> (\<exists>v. fraud_speed r = Some v \<and> 100 < v)"
  by (cases "fraud_speed r") (auto simp: is_speeding_def sql_gt_def is_true_def)

lemma stationary_charge_iff:
  "is_true (is_stationary_charge r) \<longleftrightarrow>
     trip_distance r = Some 0 \<and> (\<exists>s. congestion_surcharge r = Some s \<and> 0 < s)"
  by (cases "trip_distance r"; cases "congestion_surcharge r")
     (auto simp: is_stationary_charge_def sql_defs)

lemma stationary_not_speeding:
  "is_true (is_stationary_charge r) \<Longrightarrow> \<not> is_true (is_speeding r)"
  by (auto simp: stationary_charge_iff speeding_iff fraud_speed_def sql_div_def split: option.splits if_splits)

lemma fraud_where_iff:
  "is_true (fraud_where r) \<longleftrightarrow> is_true (is_speeding r) \<or> is_true (is_stationary_charge r)"
  by (auto simp: fraud_where_def sql_or_def is_true_def)

lemma teleporter_label_iff:
  "is_true (fraud_where r) \<and> violation_type r = ''Teleporter (>100mph)'' \<longleftrightarrow> is_true (is_speeding r)"
  by (auto simp: fraud_where_iff violation_type_def violation_case_def)

lemma stationary_label_iff:
  "is_true (fraud_where r) \<and> violation_type r = ''Stationary Charge'' \<longleftrightarrow>
     is_true (is_stationary_charge r)"
  using stationary_not_speeding [of r]
  by (auto simp: fraud_where_iff violation_type_def violation_case_def)

lemma admitted_label:
  "is_true (fraud_where r) \<Longrightarrow>
     violation_type r = ''Teleporter (>100mph)'' \<or> violation_type r = ''Stationary Charge''"
  by (auto simp: fraud_where_iff violation_type_def violation_case_def)

lemma set_group_count: "set (group_count ks) = (\<lambda>k. (k, int (count_list ks k))) ` set ks"
  by (simp add: group_count_def)

lemma count_list_map_filter:
  "count_list (map f (filter P xs)) k = length (filter (\<lambda>x. P x \<and> f x = k) xs)"
  by (induction xs) auto

lemma set_order_by_count_desc: "set (order_by_count_desc xs) = set xs"
  by (simp add: order_by_count_desc_def)

lemma analyze_fraud_rows:
  "(v, n) \<in> set (analyze_fraud clean) \<longleftrightarrow>
     0 < n \<and> n = int (length (filter (\<lambda>r. is_true (fraud_where r) \<and> violation_type r = v) clean))"
proof -
  let ?ks = "map violation_type (filter (\<lambda>r. is_true (fraud_where r)) clean)"
  have "(v, n) \<in> set (analyze_fraud clean) \<longleftrightarrow> v \<in> set ?ks \<and> n = int (count_list ?ks v)"
    by (auto simp: analyze_fraud_def set_order_by_count_desc set_group_count)
  also have "\<dots> \<longleftrightarrow> 0 < n \<and> n = int (count_list ?ks v)"
    using count_list_0_iff [of ?ks v] by (cases "count_list ?ks v = 0") auto
  finally show ?thesis
    by (simp only: count_list_map_filter)
qed

lemma analyze_fraud_rows_by_label:
  "(v, n) \<in> set (analyze_fraud clean) \<longleftrightarrow>
     0 < n \<and>
     (v = ''Teleporter (>100mph)'' \<and> n = int (length (filter (\<lambda>r. is_true (is_speeding r)) clean)) \<or>
      v = ''Stationary Charge'' \<and> n = int (length (filter (\<lambda>r. is_true (is_stationary_charge r)) clean)))"
proof -
  have other: "filter (\<lambda>r. is_true (fraud_where r) \<and> violation_type r = v) clean = []"
    if "v \<noteq> ''Teleporter (>100mph)''" "v \<noteq> ''Stationary Charge''"
    using that admitted_label by (auto simp: filter_empty_conv)
  show ?thesis
  proof (cases "v = ''Teleporter (>100mph)'' \<or> v = ''Stationary Charge''")
    case True
    then show ?thesis
      by (auto simp: analyze_fraud_rows teleporter_label_iff stationary_label_iff)
  next
    case False
    then show ?thesis
      by (simp add: analyze_fraud_rows other)
  qed
qed

lemma duration_short_fast: "duration_hrs trip_short_fast = Some (1 / 200)"
  by (simp add: trip_short_fast_def mk_trip_def duration_hrs_def sql_defs ts_defs)

lemma fraud_speed_short_fast: "fraud_speed trip_short_fast = Some 200"
  by (simp add: fraud_speed_def fraud_divisor_def duration_short_fast sql_defs)
     (simp add: trip_short_fast_def mk_trip_def)

lemma speed_mph_short_fast: "speed_mph trip_short_fast = Some 200"
  by (simp add: speed_mph_def duration_short_fast sql_defs)
     (simp add: trip_short_fast_def mk_trip_def)

lemma clean_short_fast: "clean_logic trip_short_fast = Some True"
  by (simp add: clean_logic_def audit_logic_def is_physics_fail_def is_teleporter_def
      is_stationary_def speed_mph_short_fast duration_short_fast sql_defs)
     (simp add: trip_short_fast_def mk_trip_def)

lemma speeding_short_fast: "is_speeding trip_short_fast = Some True"
  by (simp add: is_speeding_def fraud_speed_short_fast sql_gt_def)

lemma stationary_charge_short_fast: "is_stationary_charge trip_short_fast = Some False"
  by (simp add: is_stationary_charge_def trip_short_fast_def mk_trip_def sql_defs)

lemma analyze_fraud_short_fast:
  "analyze_fraud (clean_rows [trip_short_fast]) = [(''Teleporter (>100mph)'', 1)]"
  by (simp add: analyze_fraud_def clean_rows_def clean_short_fast fraud_where_def
      speeding_short_fast stationary_charge_short_fast violation_type_def violation_case_def
      group_count_def order_by_count_desc_def sql_or_def is_true_def)

text \<open>
  C4.  \<^verbatim>\<open>analyze_fraud\<close> reads the clean partition only.  A record is admitted and labelled
  "Teleporter (>100mph)" exactly when its speed, with the zero-duration divisor 1, is above
  100; admitted and labelled "Stationary Charge" exactly when its distance is 0 and its
  surcharge above 0; and left out exactly when neither holds.  So the report has a row
  \<open>(v, n)\<close> exactly when \<open>n\<close> is the positive number of records of the label \<open>v\<close>.
  A record of one mile in 18 seconds is clean for the classifier (its distance is not above
  one mile) and is the one "Teleporter" of the report over its clean export.
\<close>

theorem fraud_categorizer:
  "(is_true (fraud_where r) \<and> violation_type r = ''Teleporter (>100mph)'' \<longleftrightarrow>
      (\<exists>v. fraud_speed r = Some v \<and> 100 < v)) \<and>
   (is_true (fraud_where r) \<and> violation_type r = ''Stationary Charge'' \<longleftrightarrow>
      trip_distance r = Some 0 \<and> (\<exists>s. congestion_surcharge r = Some s \<and> 0 < s)) \<and>
   (\<not> is_true (fraud_where r) \<longleftrightarrow>
      \<not> is_true (is_speeding r) \<and> \<not> is_true (is_stationary_charge r)) \<and>
   ((v, n) \<in> set (analyze_fraud clean) \<longleftrightarrow>
      0 < n \<and>
      (v = ''Teleporter (>100mph)'' \<and>
         n = int (length (filter (\<lambda>r. is_true (is_speeding r)) clean)) \<or>
       v = ''Stationary Charge'' \<and>
         n = int (length (filter (\<lambda>r. is_true (is_stationary_charge r)) clean)))) \<and>
   (clean_logic trip_short_fast = Some True \<and>
    trip_distance trip_short_fast = Some 1 \<and>
    speed_mph trip_short_fast = Some 200 \<and>
    fraud_speed trip_short_fast = Some 200 \<and>
    analyze_fraud (clean_rows [trip_short_fast]) = [(''Teleporter (>100mph)'', 1)])"
proof (intro conjI)
  show "is_true (fraud_where r) \<and> violation_type r = ''Teleporter (>100mph)'' \<longleftrightarrow>
      (\<exists>v. fraud_speed r = Some v \<and> 100 < v)"
    by (simp only: teleporter_label_iff speeding_iff)
  show "is_true (fraud_where r) \<and> violation_type r = ''Stationary Charge'' \<longleftrightarrow>
      trip_distance r = Some 0 \<and> (\<exists>s. congestion_surcharge r = Some s \<and> 0 < s)"
    by (simp only: stationary_label_iff stationary_charge_iff)
  show "\<not> is_true (fraud_where r) \<longleftrightarrow>
      \<not> is_true (is_speeding r) \<and> \<not> is_true (is_stationary_charge r)"
    by (simp add: fraud_where_iff)
  show "(v, n) \<in> set (analyze_fraud clean) \<longleftrightarrow>
      0 < n \<and>
      (v = ''Teleporter (>100mph)'' \<and>
         n = int (length (filter (\<lambda>r. is_true (is_speeding r)) clean)) \<or>
       v = ''Stationary Charge'' \<and>
         n = int (length (filter (\<lambda>r. is_true (is_stationary_charge r)) clean)))"
    by (rule analyze_fraud_rows_by_label)
  show "clean_logic trip_short_fast = Some True" by (rule clean_short_fast)
  show "trip_distance trip_short_fast = Some 1" by (simp add: trip_short_fast_def mk_trip_def)
  show "speed_mph trip_short_fast = Some 200" by (rule speed_mph_short_fast)
  show "fraud_speed trip_short_fast = Some 200" by (rule fraud_speed_short_fast)
  show "analyze_fraud (clean_rows [trip_short_fast]) = [(''Teleporter (>100mph)'', 1)]"
    by (rule analyze_fraud_short_fast)
qed

text \<open>
  C10.  Every row of the fraud summary is labelled "Teleporter (>100mph)" or
  "Stationary Charge": the \<open>WHERE\<close> clause admits exactly the records for which one of
  the two conditions is TRUE, so the \<open>ELSE 'Other'\<close> branch is never taken on an admitted
  record; and the \<open>CASE\<close> with both conditions TRUE gives "Teleporter (>100mph)".
\<close>

theorem fraud_summary_labels:
  "((v, n) \<in> set (analyze_fraud clean) \<longrightarrow>
      v = ''Teleporter (>100mph)'' \<or> v = ''Stationary Charge'') \<and>
   (is_true (fraud_where r) \<longleftrightarrow> is_true (is_speeding r) \<or> is_true (is_stationary_charge r)) \<and>
   (is_true (fraud_where r) \<longrightarrow> violation_type r \<noteq> ''Other'') \<and>
   violation_case (Some True) (Some True) = ''Teleporter (>100mph)''"
proof (intro conjI impI)
  assume "(v, n) \<in> set (analyze_fraud clean)"
  then show "v = ''Teleporter (>100mph)'' \<or> v = ''Stationary Charge''"
    by (auto simp: analyze_fraud_rows_by_label)
next
  show "is_true (fraud_where r) \<longleftrightarrow> is_true (is_speeding r) \<or> is_true (is_stationary_charge r)"
    by (rule fraud_where_iff)
next
  assume "is_true (fraud_where r)"
  then show "violation_type r \<noteq> ''Other''"
    using admitted_label [of r] by auto
next
  show "violation_case (Some True) (Some True) = ''Teleporter (>100mph)''"
    by (simp add: violation_case_def is_true_def)
qed

theorem fraud_summary_labels_witness:
  "(''Teleporter (>100mph)'', 1) \<in> set (analyze_fraud (clean_rows [trip_short_fast])) \<and>
   is_true (fraud_where trip_short_fast) \<and>
   violation_type trip_short_fast \<noteq> ''Other''"
  using fraud_summary_labels [of "''Teleporter (>100mph)''" 1 "clean_rows [trip_short_fast]" trip_short_fast]
  by (simp add: analyze_fraud_short_fast fraud_where_def speeding_short_fast sql_or_def is_true_def)

subsection \<open>A failing batch\<close>

lemma process_batch_error_state:
  "process_batch st content name = (st', Some e) \<Longrightarrow> st' = st"
  by (auto simp: process_batch_def batch_query_def Let_def split: option.splits if_splits)

lemma process_batch_fails_iff:
  "snd (process_batch st content name) = Some e \<longleftrightarrow>
     content = None \<and> e = IOError \<or>
     (\<exists>p. content = Some p \<and> pq_schema p \<noteq> dialect_of name \<and> e = BinderError)"
  by (auto simp: process_batch_def batch_query_def Let_def split: option.splits if_splits)

lemma process_all_append:
  "process_all st (xs @ ys) =
     (case process_all st xs of
        (st', Some e) \<Rightarrow> (st', Some e)
      | (st', None) \<Rightarrow> process_all st' ys)"
proof (induction xs arbitrary: st)
  case Nil
  then show ?case by simp
next
  case (Cons x xs)
  then show ?case
    by (cases "process_batch st (snd x) (basename (fst x))") (auto split: option.splits)
qed

lemma process_all_abort:
  assumes "process_all st xs = (st1, None)"
    and "snd (process_batch st1 (snd f) (basename (fst f))) = Some e"
  shows "process_all st (xs @ f # ys) = (st1, Some e)"
proof -
  obtain st2 where p: "process_batch st1 (snd f) (basename (fst f)) = (st2, Some e)"
    using assms(2) by (cases "process_batch st1 (snd f) (basename (fst f))") auto
  then have "st2 = st1" by (rule process_batch_error_state)
  with p assms(1) show ?thesis by (simp add: process_all_append)
qed

lemma basename_february: "basename (fst good_february) = ''yellow_tripdata_2025-02.parquet''"
  by (simp add: good_february_def yellow_file_def basename_def)

lemma basename_january: "basename (fst broken_january) = ''green_tripdata_2025-01.parquet''"
  by (simp add: broken_january_def basename_def)

lemma duration_raw_yellow: "duration_hrs (normalize Yellow (raw_yellow y m d)) = Some (1 / 6)"
  by (simp add: normalize_def raw_yellow_def duration_hrs_def sql_defs ts_defs)

lemma flags_raw_yellow:
  "audit_logic (normalize Yellow (raw_yellow y m d)) = Some False \<and>
   clean_logic (normalize Yellow (raw_yellow y m d)) = Some True"
  by (simp add: clean_logic_def audit_logic_def is_physics_fail_def is_teleporter_def
      is_stationary_def speed_mph_def duration_raw_yellow sql_defs)
     (simp add: normalize_def raw_yellow_def)

lemma process_february:
  "process_batch st (snd good_february) (basename (fst good_february)) =
     (st\<lparr>clean_data := write_file ''yellow_tripdata_2025-02.parquet''
            [normalize Yellow (raw_yellow 2025 2 3)] (clean_data st),
         audit_log := write_file ''yellow_tripdata_2025-02.parquet'' [] (audit_log st)\<rparr>, None)"
  by (simp add: basename_february process_batch_def dialect_of_def)
     (simp add: good_february_def yellow_file_def batch_query_def flags_raw_yellow is_true_def)

lemma process_january:
  "process_batch st (snd broken_january) (basename (fst broken_january)) = (st, Some IOError)"
  by (simp add: process_batch_def batch_query_def broken_january_def)

text \<open>
  C5, the claim as stated fails: with an unreadable first batch and a good second batch,
  \<^verbatim>\<open>run\<close> ends with the error and nothing written, although the second batch alone is
  processed without error.
\<close>

theorem unreadable_batch_aborts_counterexample:
  "run keep_all () () [broken_january, good_february] dec_2023 dec_2024
     = (empty_outputs, Some IOError) \<and>
   snd (process_batch empty_outputs (snd good_february) (basename (fst good_february))) = None"
  by (simp add: run_def process_january process_february)

text \<open>
  C5, amended.  \<^verbatim>\<open>run\<close> has no handler around \<^verbatim>\<open>process_batch\<close>: when the batches before
  \<open>f\<close> are processed and \<open>f\<close> fails, the run ends there with the error of \<open>f\<close> raised to
  the caller and the state the earlier batches left; the batches after \<open>f\<close> and the
  imputation are not reached.  A batch fails exactly when it cannot be read or lacks the
  timestamp columns of the dialect its name selects.
\<close>

theorem batch_failure_aborts_run:
  "(process_all empty_outputs xs = (st1, None) \<and>
    snd (process_batch st1 (snd f) (basename (fst f))) = Some e \<longrightarrow>
      run smp g23 g24 (xs @ f # ys) src23 src24 = (st1, Some e)) \<and>
   (snd (process_batch st content name) = Some e \<longleftrightarrow>
      content = None \<and> e = IOError \<or>
      (\<exists>p. content = Some p \<and> pq_schema p \<noteq> dialect_of name \<and> e = BinderError))"
proof (intro conjI impI)
  assume "process_all empty_outputs xs = (st1, None) \<and>
    snd (process_batch st1 (snd f) (basename (fst f))) = Some e"
  then have "process_all empty_outputs (xs @ f # ys) = (st1, Some e)"
    by (simp add: process_all_abort)
  then show "run smp g23 g24 (xs @ f # ys) src23 src24 = (st1, Some e)"
    by (simp add: run_def)
next
  show "snd (process_batch st content name) = Some e \<longleftrightarrow>
      content = None \<and> e = IOError \<or>
      (\<exists>p. content = Some p \<and> pq_schema p \<noteq> dialect_of name \<and> e = BinderError)"
    by (rule process_batch_fails_iff)
qed

theorem batch_failure_aborts_run_witness:
  "process_all empty_outputs [good_february] =
     (fst (process_all empty_outputs [good_february]), None) \<and>
   snd (process_batch (fst (process_all empty_outputs [good_february]))
          (snd broken_january) (basename (fst broken_january))) = Some IOError \<and>
   run keep_all () () ([good_february] @ broken_january # [good_february]) dec_2023 dec_2024
     = (fst (process_all empty_outputs [good_february]), Some IOError)"
  using batch_failure_aborts_run [of "[good_february]" "fst (process_all empty_outputs [good_february])"
      broken_january IOError keep_all "()" "()" "[good_february]" dec_2023 dec_2024]
  by (simp add: process_january process_february)

subsection \<open>Imputation of December 2025\<close>

lemma add_years_Inr:
  "add_years n t = Inr t' \<longleftrightarrow>
     t' = t\<lparr>ts_year := ts_year t + n,
            ts_day := min (ts_day t) (month_days (ts_year t + n) (ts_month t))\<rparr> \<and>
     in_timestamp_range t'"
  by (auto simp: add_years_def Let_def)

lemma plus_interval_year_Inr:
  "plus_interval_year t n = Inr u \<longleftrightarrow>
     (t = None \<and> u = None) \<or>
     (\<exists>a b. t = Some a \<and> add_years n a = Inr b \<and> u = Some b)"
  by (cases t) (auto simp: plus_interval_year_def split: sum.splits)

lemma plus_interval_year_value:
  assumes "plus_interval_year t n = Inr u"
  shows "u = map_option
           (\<lambda>a. a\<lparr>ts_year := ts_year a + n,
                  ts_day := min (ts_day a) (month_days (ts_year a + n) (ts_month a))\<rparr>) t"
  using assms by (auto simp: plus_interval_year_Inr add_years_Inr)

lemma coalesce_cases: "coalesce a b = (case a of Some v \<Rightarrow> Some v | None \<Rightarrow> b)"
  by (cases a) (simp_all add: coalesce_def)

lemma impute_row_fields:
  assumes "impute_row n (f, x) = Inr row"
  shows "pickup_time row =
           map_option
             (\<lambda>a. a\<lparr>ts_year := ts_year a + n,
                    ts_day := min (ts_day a) (month_days (ts_year a + n) (ts_month a))\<rparr>)
             (case tpep_pickup_datetime x of Some v \<Rightarrow> Some v | None \<Rightarrow> lpep_pickup_datetime x)"
    and "dropoff_time row =
           map_option
             (\<lambda>a. a\<lparr>ts_year := ts_year a + n,
                    ts_day := min (ts_day a) (month_days (ts_year a + n) (ts_month a))\<rparr>)
             (case tpep_dropoff_datetime x of Some v \<Rightarrow> Some v | None \<Rightarrow> lpep_dropoff_datetime x)"
    and "pickup_loc row = PULocationID x"
    and "dropoff_loc row = DOLocationID x"
    and "trip_distance row = raw_trip_distance x"
    and "fare row = fare_amount x"
    and "total_amount row = raw_total_amount x"
    and "congestion_surcharge row = raw_congestion_surcharge x"
    and "taxi_type row = (if contains ''yellow'' f then ''yellow'' else ''green'')"
proof -
  obtain p d where
    p: "plus_interval_year (coalesce (tpep_pickup_datetime x) (lpep_pickup_datetime x)) n = Inr p"
    and d: "plus_interval_year (coalesce (tpep_dropoff_datetime x) (lpep_dropoff_datetime x)) n = Inr d"
    and row: "row = \<lparr>pickup_time = p, dropoff_time = d, pickup_loc = PULocationID x,
        dropoff_loc = DOLocationID x, trip_distance = raw_trip_distance x, fare = fare_amount x,
        total_amount = raw_total_amount x, congestion_surcharge = raw_congestion_surcharge x,
        taxi_type = (if contains ''yellow'' f then ''yellow'' else ''green'')\<rparr>"
    using assms by (auto simp: impute_row_def Let_def split: sum.splits)
  show "pickup_time row =
           map_option
             (\<lambda>a. a\<lparr>ts_year := ts_year a + n,
                    ts_day := min (ts_day a) (month_days (ts_year a + n) (ts_month a))\<rparr>)
             (case tpep_pickup_datetime x of Some v \<Rightarrow> Some v | None \<Rightarrow> lpep_pickup_datetime x)"
    using plus_interval_year_value [OF p] by (simp add: row coalesce_cases)
  show "dropoff_time row =
           map_option
             (\<lambda>a. a\<lparr>ts_year := ts_year a + n,
                    ts_day := min (ts_day a) (month_days (ts_year a + n) (ts_month a))\<rparr>)
             (case tpep_dropoff_datetime x of Some v \<Rightarrow> Some v | None \<Rightarrow> lpep_dropoff_datetime x)"
    using plus_interval_year_value [OF d] by (simp add: row coalesce_cases)
  show "pickup_loc row = PULocationID x" by (simp add: row)
  show "dropoff_loc row = DOLocationID x" by (simp add: row)
  show "trip_distance row = raw_trip_distance x" by (simp add: row)
  show "fare row = fare_amount x" by (simp add: row)
  show "total_amount row = raw_total_amount x" by (simp add: row)
  show "congestion_surcharge row = raw_congestion_surcharge x" by (simp add: row)
  show "taxi_type row = (if contains ''yellow'' f then ''yellow'' else ''green'')" by (simp add: row)
qed

lemma impute_select_Inr:
  "impute_select n rows = Inr out \<longleftrightarrow> list_all2 (\<lambda>fx r. impute_row n fx = Inr r) rows out"
proof (induction rows arbitrary: out)
  case Nil
  then show ?case by auto
next
  case (Cons fx rest)
  show ?case
  proof (cases out)
    case Nil
    then show ?thesis by (auto split: sum.splits)
  next
    case (Cons r rs)
    with Cons.IH [of rs] show ?thesis by (auto split: sum.splits)
  qed
qed

lemma contains_Cons: "contains sub cs \<Longrightarrow> contains sub (c # cs)"
  by simp

lemma contains_append: "contains sub ys \<Longrightarrow> contains sub (xs @ ys)"
  by (induction xs) (simp_all del: contains.simps add: contains_Cons)

lemma basename_suffix: "p = rev (dropWhile (\<lambda>c. c \<noteq> CHR ''/'') (rev p)) @ basename p"
  unfolding basename_def
  by (metis rev_append rev_rev_ident takeWhile_dropWhile_id)

lemma contains_basename: "contains sub (basename p) \<Longrightarrow> contains sub p"
  using contains_append [of sub "basename p" "rev (dropWhile (\<lambda>c. c \<noteq> CHR ''/'') (rev p))"]
    basename_suffix [of p]
  by simp

lemma december_batch_has_december:
  "\<exists>f\<in>set files. contains ''2025-12'' (basename (fst f)) \<Longrightarrow> has_december files"
  by (auto simp: has_december_def list_ex_iff dest: contains_basename)

lemma clean_partition_write:
  "clean_partition (st\<lparr>clean_data := write_file name rows (clean_data st)\<rparr>) =
     rows @ concat (map snd (filter (\<lambda>e. fst e \<noteq> name) (clean_data st)))"
  by (simp add: clean_partition_def write_file_def)

lemma read_dec_2023:
  "read_union dec_2023 =
     Inr rows_dec_2023"
  by (simp add: rows_dec_2023_def read_union_def dec_2023_def green_file_def yellow_file_def has_dialect_def)

lemma read_dec_2024:
  "read_union dec_2024 =
     Inr rows_dec_2024"
  by (simp add: rows_dec_2024_def read_union_def dec_2024_def green_file_def yellow_file_def has_dialect_def)

lemma no_december_february: "\<not> has_december [good_february]"
  by (simp add: has_december_def good_february_def yellow_file_def)

lemma december_december: "has_december [good_december]"
  by (simp add: has_december_def good_december_def yellow_file_def)

lemma basename_december: "basename (fst good_december) = ''yellow_tripdata_2025-12.parquet''"
  by (simp add: good_december_def yellow_file_def basename_def)

lemma process_december:
  "process_batch st (snd good_december) (basename (fst good_december)) =
     (st\<lparr>clean_data := write_file ''yellow_tripdata_2025-12.parquet''
            [normalize Yellow (raw_yellow 2025 12 3)] (clean_data st),
         audit_log := write_file ''yellow_tripdata_2025-12.parquet'' [] (audit_log st)\<rparr>, None)"
  by (simp add: basename_december process_batch_def dialect_of_def)
     (simp add: good_december_def yellow_file_def batch_query_def flags_raw_yellow is_true_def)


lemma read_yellow_only: "read_union yellow_only_2023 = Inl BinderError"
  by (simp add: read_union_def yellow_only_2023_def yellow_file_def has_dialect_def)

lemma in_range_december:
  "1 \<le> d \<Longrightarrow> d \<le> 31 \<Longrightarrow> 0 \<le> us \<Longrightarrow> us < 86400000000 \<Longrightarrow>
     in_timestamp_range (mk_ts 2025 12 d us)"
  by (simp add: in_timestamp_range_def epoch_micros_def mk_ts_def days_from_civil_def Let_def)

lemma add_years_december:
  "1 \<le> d \<Longrightarrow> d \<le> 31 \<Longrightarrow> 0 \<le> us \<Longrightarrow> us < 86400000000 \<Longrightarrow> y + n = 2025 \<Longrightarrow>
     add_years n (mk_ts y 12 d us) = Inr (mk_ts 2025 12 d us)"
  using in_range_december [of d us]
  by (simp add: add_years_def Let_def month_days_def mk_ts_def)

lemma impute_green_2023:
  "impute_row 2 (''raw_data/green_tripdata_2023-12.parquet'', raw_green 2023 12 24) =
     Inr (imputed_trip ''green'' 24 50)"
  by (simp add: impute_row_def raw_green_def coalesce_def plus_interval_year_def
      add_years_december imputed_trip_def)

lemma impute_yellow_2023:
  "impute_row 2 (''raw_data/yellow_tripdata_2023-12.parquet'', raw_yellow 2023 12 25) =
     Inr (imputed_trip ''yellow'' 25 48)"
  by (simp add: impute_row_def raw_yellow_def coalesce_def plus_interval_year_def
      add_years_december imputed_trip_def)

lemma impute_green_2024:
  "impute_row 1 (''raw_data/green_tripdata_2024-12.parquet'', raw_green 2024 12 24) =
     Inr (imputed_trip ''green'' 24 50)"
  by (simp add: impute_row_def raw_green_def coalesce_def plus_interval_year_def
      add_years_december imputed_trip_def)

lemma impute_yellow_2024:
  "impute_row 1 (''raw_data/yellow_tripdata_2024-12.parquet'', raw_yellow 2024 12 25) =
     Inr (imputed_trip ''yellow'' 25 48)"
  by (simp add: impute_row_def raw_yellow_def coalesce_def plus_interval_year_def
      add_years_december imputed_trip_def)

lemma impute_select_2023:
  "impute_select 2 rows_dec_2023 = Inr [imputed_trip ''green'' 24 50, imputed_trip ''yellow'' 25 48]"
  by (simp add: rows_dec_2023_def impute_green_2023 impute_yellow_2023)

lemma impute_select_2024:
  "impute_select 1 rows_dec_2024 = Inr [imputed_trip ''green'' 24 50, imputed_trip ''yellow'' 25 48]"
  by (simp add: rows_dec_2024_def impute_green_2024 impute_yellow_2024)

lemma leap_day_shift: "add_years 1 (mk_ts 2024 2 29 0) = Inr (mk_ts 2025 2 28 0)"
  by (simp add: add_years_def Let_def month_days_def is_leap_def mk_ts_def
      in_timestamp_range_def epoch_micros_def days_from_civil_def)

lemma out_of_range_shift: "add_years 2 (mk_ts 294246 6 1 0) = Inl ConversionError"
  by (simp add: add_years_def Let_def month_days_def mk_ts_def
      in_timestamp_range_def epoch_micros_def days_from_civil_def)

lemma run_imputes:
  assumes "process_all empty_outputs files = (st, None)" "\<not> has_december files"
    "read_union src23 = Inr r23" "read_union src24 = Inr r24"
    "impute_select 2 (smp g23 30 r23) = Inr a" "impute_select 1 (smp g24 70 r24) = Inr b"
  shows "run smp g23 g24 files src23 src24 =
     (st\<lparr>clean_data := write_file imputed_name (a @ b) (clean_data st)\<rparr>, None)"
  using assms by (simp add: run_def impute_december_def)

lemma run_december_batch:
  assumes "process_all empty_outputs files = (st, None)"
    "\<exists>f\<in>set files. contains ''2025-12'' (basename (fst f))"
  shows "run smp g23 g24 files src23 src24 = (st, None)"
  using assms december_batch_has_december [of files] by (simp add: run_def)

lemma run_source_error:
  assumes "process_all empty_outputs files = (st, None)"
    "read_union src23 = Inl e \<or> read_union src24 = Inl e"
  shows "run smp g23 g24 files src23 src24 = (st, None)"
  using assms by (auto simp: run_def impute_december_def split: sum.splits)

lemma process_all_february:
  "process_all empty_outputs [good_february] =
     (\<lparr>clean_data = [(''yellow_tripdata_2025-02.parquet'', [normalize Yellow (raw_yellow 2025 2 3)])],
       audit_log = [(''yellow_tripdata_2025-02.parquet'', [])]\<rparr>, None)"
  by (simp add: process_february empty_outputs_def write_file_def)

lemma process_all_december:
  "process_all empty_outputs [good_december] =
     (\<lparr>clean_data = [(''yellow_tripdata_2025-12.parquet'', [normalize Yellow (raw_yellow 2025 12 3)])],
       audit_log = [(''yellow_tripdata_2025-12.parquet'', [])]\<rparr>, None)"
  by (simp add: process_december empty_outputs_def write_file_def)

text \<open>
  C7, the claim as stated fails: with no December batch among the 2025 files but only the
  yellow batch of 2023-12 on disk, the imputation query finds no \<^verbatim>\<open>lpep_*\<close> column, the
  error is caught, and \<^verbatim>\<open>run\<close> ends with the February batch alone in \<^verbatim>\<open>clean_data\<close>:
  December 2025 is not synthesized.
\<close>

theorem missing_source_dialect_counterexample:
  "\<not> has_december [good_february] \<and>
   read_union yellow_only_2023 = Inl BinderError \<and>
   map fst (clean_data (fst (run keep_all () () [good_february] yellow_only_2023 dec_2024))) =
     [''yellow_tripdata_2025-02.parquet'']"
proof -
  have "run keep_all () () [good_february] yellow_only_2023 dec_2024 =
      (\<lparr>clean_data = [(''yellow_tripdata_2025-02.parquet'', [normalize Yellow (raw_yellow 2025 2 3)])],
        audit_log = [(''yellow_tripdata_2025-02.parquet'', [])]\<rparr>, None)"
    by (rule run_source_error [OF process_all_february, where e = BinderError])
       (simp add: read_yellow_only)
  then show ?thesis
    by (simp add: no_december_february read_yellow_only)
qed

text \<open>
  C7, amended.  Provided every 2025 batch is processed without error:
  when \<^verbatim>\<open>2025-12\<close> occurs in no path of a 2025 batch, both source periods can be read
  with a file of each dialect, and the select list succeeds on the sampled rows, \<^verbatim>\<open>run\<close>
  writes \<^verbatim>\<open>imputed_dec_2025.parquet\<close> into \<^verbatim>\<open>clean_data\<close> as the imputed rows of the 30%
  sample of 2023-12 (interval 2 years) followed by those of the 70% sample of 2024-12
  (interval 1 year), and the clean partition holds them like any other record; when a
  batch whose file name holds \<^verbatim>\<open>2025-12\<close> exists, or a source period cannot be read, the
  state the batches left is returned with nothing imputed.  The select list yields one
  record per sampled row, in order.  In an imputed record each timestamp is the
  \<^verbatim>\<open>tpep_*\<close> column, or the \<^verbatim>\<open>lpep_*\<close> column where that is NULL, with the year moved by
  exactly the interval, month and time of day kept and the day cut to the length of the
  target month; zones, distance, fare, total and surcharge are carried over, and the taxi
  type is yellow exactly when the file path holds \<^verbatim>\<open>yellow\<close>.  A shifted timestamp is
  inside the TIMESTAMP range; outside it the shift is an error.
\<close>

theorem december_imputation:
  "(process_all empty_outputs files = (st, None) \<and> \<not> has_december files \<and>
    read_union src23 = Inr r23 \<and> read_union src24 = Inr r24 \<and>
    impute_select 2 (smp g23 30 r23) = Inr a \<and> impute_select 1 (smp g24 70 r24) = Inr b \<longrightarrow>
      run smp g23 g24 files src23 src24 =
        (st\<lparr>clean_data := write_file imputed_name (a @ b) (clean_data st)\<rparr>, None) \<and>
      clean_partition (fst (run smp g23 g24 files src23 src24)) =
        (a @ b) @ concat (map snd (filter (\<lambda>e. fst e \<noteq> imputed_name) (clean_data st)))) \<and>
   (process_all empty_outputs files = (st, None) \<and>
    (\<exists>f\<in>set files. contains ''2025-12'' (basename (fst f))) \<longrightarrow>
      run smp g23 g24 files src23 src24 = (st, None)) \<and>
   (process_all empty_outputs files = (st, None) \<and>
    (read_union src23 = Inl e \<or> read_union src24 = Inl e) \<longrightarrow>
      run smp g23 g24 files src23 src24 = (st, None)) \<and>
   (impute_select n rows = Inr out \<longleftrightarrow>
      list_all2 (\<lambda>fx r. impute_row n fx = Inr r) rows out) \<and>
   (impute_row n (f, x) = Inr row \<longrightarrow>
      pickup_time row =
        map_option
          (\<lambda>t. t\<lparr>ts_year := ts_year t + n,
                 ts_day := min (ts_day t) (month_days (ts_year t + n) (ts_month t))\<rparr>)
          (case tpep_pickup_datetime x of Some v \<Rightarrow> Some v | None \<Rightarrow> lpep_pickup_datetime x) \<and>
      dropoff_time row =
        map_option
          (\<lambda>t. t\<lparr>ts_year := ts_year t + n,
                 ts_day := min (ts_day t) (month_days (ts_year t + n) (ts_month t))\<rparr>)
          (case tpep_dropoff_datetime x of Some v \<Rightarrow> Some v | None \<Rightarrow> lpep_dropoff_datetime x) \<and>
      pickup_loc row = PULocationID x \<and>
      dropoff_loc row = DOLocationID x \<and>
      trip_distance row = raw_trip_distance x \<and>
      fare row = fare_amount x \<and>
      total_amount row = raw_total_amount x \<and>
      congestion_surcharge row = raw_congestion_surcharge x \<and>
      taxi_type row = (if contains ''yellow'' f then ''yellow'' else ''green'')) \<and>
   (add_years n t = Inr t' \<longleftrightarrow>
      t' = t\<lparr>ts_year := ts_year t + n,
             ts_day := min (ts_day t) (month_days (ts_year t + n) (ts_month t))\<rparr> \<and>
      in_timestamp_range t')"
proof (intro conjI impI)
  assume h: "process_all empty_outputs files = (st, None) \<and> \<not> has_december files \<and>
    read_union src23 = Inr r23 \<and> read_union src24 = Inr r24 \<and>
    impute_select 2 (smp g23 30 r23) = Inr a \<and> impute_select 1 (smp g24 70 r24) = Inr b"
  then show r: "run smp g23 g24 files src23 src24 =
        (st\<lparr>clean_data := write_file imputed_name (a @ b) (clean_data st)\<rparr>, None)"
    by (simp add: run_imputes)
  show "clean_partition (fst (run smp g23 g24 files src23 src24)) =
        (a @ b) @ concat (map snd (filter (\<lambda>e. fst e \<noteq> imputed_name) (clean_data st)))"
    by (simp only: r fst_conv clean_partition_write)
next
  assume "process_all empty_outputs files = (st, None) \<and>
    (\<exists>f\<in>set files. contains ''2025-12'' (basename (fst f)))"
  then show "run smp g23 g24 files src23 src24 = (st, None)"
    by (simp add: run_december_batch)
next
  assume "process_all empty_outputs files = (st, None) \<and>
    (read_union src23 = Inl e \<or> read_union src24 = Inl e)"
  then have "process_all empty_outputs files = (st, None)"
    and "read_union src23 = Inl e \<or> read_union src24 = Inl e"
    by simp_all
  then show "run smp g23 g24 files src23 src24 = (st, None)"
    by (rule run_source_error)
next
  show "impute_select n rows = Inr out \<longleftrightarrow>
      list_all2 (\<lambda>fx r. impute_row n fx = Inr r) rows out"
    by (rule impute_select_Inr)
next
  show "add_years n t = Inr t' \<longleftrightarrow>
      t' = t\<lparr>ts_year := ts_year t + n,
             ts_day := min (ts_day t) (month_days (ts_year t + n) (ts_month t))\<rparr> \<and>
      in_timestamp_range t'"
    by (rule add_years_Inr)
qed (simp_all add: impute_row_fields)

theorem december_imputation_witness:
  "\<not> has_december [good_february] \<and>
   read_union dec_2023 = Inr rows_dec_2023 \<and>
   read_union dec_2024 = Inr rows_dec_2024 \<and>
   impute_row 2 (''raw_data/green_tripdata_2023-12.parquet'', raw_green 2023 12 24) =
     Inr (imputed_trip ''green'' 24 50) \<and>
   pickup_time (imputed_trip ''green'' 24 50) = Some (mk_ts 2025 12 24 36000000000) \<and>
   taxi_type (imputed_trip ''green'' 24 50) = ''green'' \<and>
   clean_partition (fst (run keep_all () () [good_february] dec_2023 dec_2024)) =
     [imputed_trip ''green'' 24 50, imputed_trip ''yellow'' 25 48,
      imputed_trip ''green'' 24 50, imputed_trip ''yellow'' 25 48,
      normalize Yellow (raw_yellow 2025 2 3)] \<and>
   contains ''2025-12'' (basename (fst good_december)) \<and>
   map fst (clean_data (fst (run keep_all () () [good_december] dec_2023 dec_2024))) =
     [''yellow_tripdata_2025-12.parquet''] \<and>
   read_union yellow_only_2023 = Inl BinderError \<and>
   map fst (clean_data (fst (run keep_all () () [good_february] yellow_only_2023 dec_2024))) =
     [''yellow_tripdata_2025-02.parquet''] \<and>
   add_years 1 (mk_ts 2024 2 29 0) = Inr (mk_ts 2025 2 28 0) \<and>
   in_timestamp_range (mk_ts 2025 2 28 0)"
proof -
  let ?feb = "\<lparr>clean_data = [(''yellow_tripdata_2025-02.parquet'', [normalize Yellow (raw_yellow 2025 2 3)])],
               audit_log = [(''yellow_tripdata_2025-02.parquet'', [])]\<rparr>"
  let ?dec = "\<lparr>clean_data = [(''yellow_tripdata_2025-12.parquet'', [normalize Yellow (raw_yellow 2025 12 3)])],
               audit_log = [(''yellow_tripdata_2025-12.parquet'', [])]\<rparr>"
  let ?imp = "[imputed_trip ''green'' 24 50, imputed_trip ''yellow'' 25 48]"
  have name: "imputed_name \<noteq> ''yellow_tripdata_2025-02.parquet''"
    by (simp add: imputed_name_def)
  have cd: "contains ''2025-12'' (basename (fst good_december))"
    by (simp add: basename_december)
  have s23: "impute_select 2 (keep_all () 30 rows_dec_2023) = Inr ?imp"
    and s24: "impute_select 1 (keep_all () 70 rows_dec_2024) = Inr ?imp"
    by (simp_all add: keep_all_def impute_select_2023 impute_select_2024)
  have hb: "process_all empty_outputs [good_february] = (?feb, None) \<and>
      \<not> has_december [good_february] \<and>
      read_union dec_2023 = Inr rows_dec_2023 \<and> read_union dec_2024 = Inr rows_dec_2024 \<and>
      impute_select 2 (keep_all () 30 rows_dec_2023) = Inr ?imp \<and>
      impute_select 1 (keep_all () 70 rows_dec_2024) = Inr ?imp"
    using process_all_february no_december_february read_dec_2023 read_dec_2024 s23 s24
    by (intro conjI)
  have b: "clean_partition (fst (run keep_all () () [good_february] dec_2023 dec_2024)) =
        (?imp @ ?imp) @
        concat (map snd (filter (\<lambda>e. fst e \<noteq> imputed_name) (clean_data ?feb)))"
    by (rule december_imputation
      [where files = "[good_february]" and st = ?feb and ?src23.0 = dec_2023
         and ?r23.0 = rows_dec_2023 and ?src24.0 = dec_2024 and ?r24.0 = rows_dec_2024
         and smp = keep_all and ?g23.0 = "()" and ?g24.0 = "()" and a = ?imp and b = ?imp,
       THEN conjunct1, THEN mp, OF hb, THEN conjunct2])
  have hc: "process_all empty_outputs [good_december] = (?dec, None) \<and>
      (\<exists>f\<in>set [good_december]. contains ''2025-12'' (basename (fst f)))"
    using process_all_december cd by (intro conjI) (simp_all del: process_all.simps)
  have c: "run keep_all () () [good_december] dec_2023 dec_2024 = (?dec, None)"
    by (rule december_imputation
      [where files = "[good_december]" and st = ?dec and ?src23.0 = dec_2023
         and ?src24.0 = dec_2024 and smp = keep_all and ?g23.0 = "()" and ?g24.0 = "()",
       THEN conjunct2, THEN conjunct1, THEN mp, OF hc])
  have hd: "process_all empty_outputs [good_february] = (?feb, None) \<and>
      (read_union yellow_only_2023 = Inl BinderError \<or> read_union dec_2024 = Inl BinderError)"
    using process_all_february read_yellow_only by (intro conjI disjI1)
  have d: "run keep_all () () [good_february] yellow_only_2023 dec_2024 = (?feb, None)"
    by (rule december_imputation
      [where files = "[good_february]" and st = ?feb and ?src23.0 = yellow_only_2023
         and ?src24.0 = dec_2024 and smp = keep_all and ?g23.0 = "()" and ?g24.0 = "()"
         and e = BinderError,
       THEN conjunct2, THEN conjunct2, THEN conjunct1, THEN mp, OF hd])
  have e: "add_years 1 (mk_ts 2024 2 29 0) = Inr (mk_ts 2025 2 28 0)"
    by (rule leap_day_shift)
  have f: "in_timestamp_range (mk_ts 2025 2 28 0)"
    by (rule december_imputation
      [where n = 1 and t = "mk_ts 2024 2 29 0" and t' = "mk_ts 2025 2 28 0"
         and smp = keep_all and ?g23.0 = "()" and ?g24.0 = "()",
       THEN conjunct2, THEN conjunct2, THEN conjunct2, THEN conjunct2, THEN conjunct2,
       THEN iffD1, OF e, THEN conjunct2])
  have p: "pickup_time (imputed_trip ''green'' 24 50) = Some (mk_ts 2025 12 24 36000000000)"
    and ty: "taxi_type (imputed_trip ''green'' 24 50) = ''green''"
    by (simp_all add: imputed_trip_def)
  have b': "clean_partition (fst (run keep_all () () [good_february] dec_2023 dec_2024)) =
     [imputed_trip ''green'' 24 50, imputed_trip ''yellow'' 25 48,
      imputed_trip ''green'' 24 50, imputed_trip ''yellow'' 25 48,
      normalize Yellow (raw_yellow 2025 2 3)]"
    unfolding b using name by simp
  show ?thesis
    unfolding b' c d
    by (simp add: e f cd p ty no_december_february read_dec_2023 read_dec_2024 read_yellow_only
        impute_green_2023)
qed

subsection \<open>The leakage audit\<close>

lemma sum_list_indicator:
  "sum_list (map (\<lambda>r. if P r then 1 else 0) xs) = int (length (filter P xs))"
  by (induction xs) auto

lemma map_filter_Some: "List.map_filter id (map (\<lambda>r. Some (f r)) xs) = map f xs"
  by (induction xs) auto

lemma sql_sum_indicator:
  "sql_sum (map (\<lambda>r. Some (if P r then 1 else 0)) xs) =
     (if xs = [] then None else Some (int (length (filter P xs))))"
  using map_filter_Some [of "\<lambda>r. if P r then 1 else (0::int)" xs]
  by (simp add: sql_sum_def sum_list_indicator)

lemma audit_leakage_nonempty:
  assumes "eligible_trips clean \<noteq> []"
  shows "audit_leakage clean =
     \<lparr>total_eligible_trips = int (length (eligible_trips clean)),
      compliant_trips = Some (int (length (filter is_compliant (eligible_trips clean)))),
      compliance_rate_pct =
        Some (of_int (int (length (filter is_compliant (eligible_trips clean)))) * 100
              / of_int (int (length (eligible_trips clean)))),
      estimated_revenue_loss =
        Some ((of_int (int (length (eligible_trips clean)))
               - of_int (int (length (filter is_compliant (eligible_trips clean))))) * (275 / 100))\<rparr>"
  using assms
  by (simp add: audit_leakage_def Let_def sql_sum_indicator sql_count_def sql_div_def sql_mul_def sql_sub_def)

lemma audit_leakage_empty:
  assumes "eligible_trips clean = []"
  shows "audit_leakage clean =
     \<lparr>total_eligible_trips = 0, compliant_trips = None,
      compliance_rate_pct = None, estimated_revenue_loss = None\<rparr>"
  using assms
  by (simp add: audit_leakage_def Let_def sql_sum_def sql_count_def sql_div_def sql_mul_def sql_sub_def)

lemma eligible_iff:
  "is_true (eligible r) \<longleftrightarrow>
     (\<exists>t pl dl. pickup_time r = Some t \<and> is_true (ts_ge (Some t) (mk_ts 2025 1 5 0)) \<and>
        pickup_loc r = Some pl \<and> pl \<notin> set CONGESTION_ZONE_IDS \<and>
        dropoff_loc r = Some dl \<and> dl \<in> set CONGESTION_ZONE_IDS)"
  by (cases "pickup_time r"; cases "pickup_loc r"; cases "dropoff_loc r")
     (auto simp: eligible_def ts_ge_def sql_and_def sql_not_def sql_in_def is_true_def)

lemma is_compliant_iff: "is_compliant r \<longleftrightarrow> (\<exists>s. congestion_surcharge r = Some s \<and> 0 < s)"
  by (cases "congestion_surcharge r") (auto simp: is_compliant_def sql_gt_def is_true_def)

lemma set_eligible_trips:
  "r \<in> set (eligible_trips clean) \<longleftrightarrow> r \<in> set clean \<and> is_true (eligible r)"
  by (simp add: eligible_trips_def)

lemma eligible_trip_to_48: "eligible (trip_to 48 f s) = Some True"
  by (simp add: eligible_def trip_to_def mk_trip_def mk_ts_def ts_ge_def CONGESTION_ZONE_IDS_def
      sql_and_def sql_not_def sql_in_def)

lemma compliant_trip_to: "is_compliant (trip_to z f s) \<longleftrightarrow> 0 < s"
  by (simp add: is_compliant_iff trip_to_def mk_trip_def)

lemma eligible_hundred: "eligible_trips hundred_entering = hundred_entering"
  by (simp add: eligible_trips_def hundred_entering_def eligible_trip_to_48 is_true_def)

lemma compliant_hundred:
  "filter is_compliant hundred_entering = replicate 80 (trip_to 48 8 (5 / 2))"
  by (simp add: hundred_entering_def compliant_trip_to)

lemma eligible_short_fast: "eligible trip_short_fast = Some False"
  by (simp add: eligible_def trip_short_fast_def mk_trip_def mk_ts_def ts_ge_def
      CONGESTION_ZONE_IDS_def sql_and_def sql_not_def sql_in_def)

text \<open>
  C6, the claim as stated fails where no trip is eligible: over a clean partition whose
  only trip ends outside the congestion zone, the count is 0 but \<open>SUM\<close> over no rows is
  NULL, so \<^verbatim>\<open>compliant_trips\<close> and \<^verbatim>\<open>estimated_revenue_loss\<close> are NULL, not 0.
\<close>

theorem no_eligible_trip_counterexample:
  "eligible_trips [trip_short_fast] = [] \<and>
   total_eligible_trips (audit_leakage [trip_short_fast]) = 0 \<and>
   compliant_trips (audit_leakage [trip_short_fast]) = None \<and>
   estimated_revenue_loss (audit_leakage [trip_short_fast]) = None"
proof -
  have e: "eligible_trips [trip_short_fast] = []"
    by (simp add: eligible_trips_def eligible_short_fast is_true_def)
  then show ?thesis
    by (simp add: audit_leakage_empty)
qed

text \<open>
  C6, amended.  The eligible trips are the clean records picked up at or after
  2025-01-05 00:00:00 in a known zone outside \<open>CongestionZone\<close> and dropped off inside it;
  a trip is compliant when its surcharge is known and above 0.  When at least one trip is
  eligible, \<^verbatim>\<open>audit_leakage\<close> returns their number, the number of compliant ones, the
  rate compliant / eligible * 100 and the loss (eligible - compliant) * 2.75; with 100
  eligible trips of which 80 are compliant the rate is 80 and the loss 55.  When no trip is
  eligible the count is 0 and the three other columns are NULL.
\<close>

theorem leakage_audit:
  "(eligible_trips clean \<noteq> [] \<longrightarrow>
      total_eligible_trips (audit_leakage clean) = int (length (eligible_trips clean)) \<and>
      compliant_trips (audit_leakage clean) =
        Some (int (length (filter is_compliant (eligible_trips clean)))) \<and>
      compliance_rate_pct (audit_leakage clean) =
        Some (of_nat (length (filter is_compliant (eligible_trips clean)))
              / of_nat (length (eligible_trips clean)) * 100) \<and>
      estimated_revenue_loss (audit_leakage clean) =
        Some ((of_nat (length (eligible_trips clean))
               - of_nat (length (filter is_compliant (eligible_trips clean)))) * (275 / 100))) \<and>
   (eligible_trips clean = [] \<longrightarrow>
      audit_leakage clean =
        \<lparr>total_eligible_trips = 0, compliant_trips = None,
         compliance_rate_pct = None, estimated_revenue_loss = None\<rparr>) \<and>
   (length (eligible_trips clean) = 100 \<and>
    length (filter is_compliant (eligible_trips clean)) = 80 \<longrightarrow>
      compliance_rate_pct (audit_leakage clean) = Some 80 \<and>
      estimated_revenue_loss (audit_leakage clean) = Some 55) \<and>
   (r \<in> set (eligible_trips clean) \<longleftrightarrow>
      r \<in> set clean \<and>
      (\<exists>t pl dl. pickup_time r = Some t \<and> is_true (ts_ge (Some t) (mk_ts 2025 1 5 0)) \<and>
         pickup_loc r = Some pl \<and> pl \<notin> set CONGESTION_ZONE_IDS \<and>
         dropoff_loc r = Some dl \<and> dl \<in> set CONGESTION_ZONE_IDS)) \<and>
   (is_compliant r \<longleftrightarrow> (\<exists>s. congestion_surcharge r = Some s \<and> 0 < s))"
proof (intro conjI impI)
  assume ne: "eligible_trips clean \<noteq> []"
  note eq = audit_leakage_nonempty [OF ne]
  show "total_eligible_trips (audit_leakage clean) = int (length (eligible_trips clean))"
    by (simp add: eq)
  show "compliant_trips (audit_leakage clean) =
        Some (int (length (filter is_compliant (eligible_trips clean))))"
    by (simp add: eq)
  show "compliance_rate_pct (audit_leakage clean) =
        Some (of_nat (length (filter is_compliant (eligible_trips clean)))
              / of_nat (length (eligible_trips clean)) * 100)"
    by (simp add: eq)
  show "estimated_revenue_loss (audit_leakage clean) =
        Some ((of_nat (length (eligible_trips clean))
               - of_nat (length (filter is_compliant (eligible_trips clean)))) * (275 / 100))"
    by (simp add: eq)
next
  assume "eligible_trips clean = []"
  then show "audit_leakage clean =
        \<lparr>total_eligible_trips = 0, compliant_trips = None,
         compliance_rate_pct = None, estimated_revenue_loss = None\<rparr>"
    by (rule audit_leakage_empty)
next
  assume h: "length (eligible_trips clean) = 100 \<and>
    length (filter is_compliant (eligible_trips clean)) = 80"
  then have ne: "eligible_trips clean \<noteq> []" by auto
  show "compliance_rate_pct (audit_leakage clean) = Some 80"
    using h by (simp add: audit_leakage_nonempty [OF ne])
  show "estimated_revenue_loss (audit_leakage clean) = Some 55"
    using h by (simp add: audit_leakage_nonempty [OF ne])
next
  show "r \<in> set (eligible_trips clean) \<longleftrightarrow>
      r \<in> set clean \<and>
      (\<exists>t pl dl. pickup_time r = Some t \<and> is_true (ts_ge (Some t) (mk_ts 2025 1 5 0)) \<and>
         pickup_loc r = Some pl \<and> pl \<notin> set CONGESTION_ZONE_IDS \<and>
         dropoff_loc r = Some dl \<and> dl \<in> set CONGESTION_ZONE_IDS)"
    by (simp only: set_eligible_trips eligible_iff)
next
  show "is_compliant r \<longleftrightarrow> (\<exists>s. congestion_surcharge r = Some s \<and> 0 < s)"
    by (rule is_compliant_iff)
qed

theorem leakage_audit_witness:
  "length (eligible_trips hundred_entering) = 100 \<and>
   length (filter is_compliant (eligible_trips hundred_entering)) = 80 \<and>
   total_eligible_trips (audit_leakage hundred_entering) = 100 \<and>
   compliant_trips (audit_leakage hundred_entering) = Some 80 \<and>
   compliance_rate_pct (audit_leakage hundred_entering) = Some 80 \<and>
   estimated_revenue_loss (audit_leakage hundred_entering) = Some 55 \<and>
   eligible_trips [] = [] \<and>
   compliant_trips (audit_leakage []) = None"
proof -
  have l: "length (eligible_trips hundred_entering) = 100"
    by (simp add: eligible_hundred) (simp add: hundred_entering_def)
  have c: "length (filter is_compliant (eligible_trips hundred_entering)) = 80"
    by (simp add: eligible_hundred compliant_hundred)
  have ne: "eligible_trips hundred_entering \<noteq> []"
    using l by auto
  have e: "eligible_trips [] = []"
    by (simp add: eligible_trips_def)
  show ?thesis
    using leakage_audit [of hundred_entering] leakage_audit [of "[]"] l c ne e
    by simp
qed

subsection \<open>The fairness aggregation\<close>

lemma set_fairness_rows:
  "r \<in> set (fairness_rows clean) \<longleftrightarrow> r \<in> set clean \<and> (\<exists>f. fare r = Some f \<and> 0 < f)"
  by (cases "fare r") (auto simp: fairness_rows_def sql_gt_def is_true_def)

lemma short_trip_iff:
  "is_true (is_short_trip r) \<longleftrightarrow>
     (\<exists>d z. trip_distance r = Some d \<and> d < 2 \<and> dropoff_loc r = Some z \<and> z \<in> set CONGESTION_ZONE_IDS)"
  by (cases "trip_distance r"; cases "dropoff_loc r")
     (auto simp: is_short_trip_def sql_and_def sql_lt_def sql_in_def is_true_def)

lemma tip_ratio_positive_fare:
  assumes "fare r = Some f" "0 < f"
  shows "tip_ratio r =
     (if total_amount r \<noteq> None \<and> congestion_surcharge r \<noteq> None
      then Some ((the (total_amount r) - the (fare r) - the (congestion_surcharge r)) / the (fare r))
      else None)"
  using assms
  by (cases "total_amount r"; cases "congestion_surcharge r")
     (auto simp: tip_ratio_def sql_gt_def sql_sub_def sql_div_def is_true_def)

lemma map_filter_id_map: "List.map_filter id (map g xs) = List.map_filter g xs"
  by (simp add: List.map_filter_def filter_map comp_def)

lemma known_tips:
  assumes "\<forall>r\<in>set rows. \<exists>f. fare r = Some f \<and> 0 < f"
  shows "List.map_filter id (map tip_ratio rows) =
     map (\<lambda>r. (the (total_amount r) - the (fare r) - the (congestion_surcharge r)) / the (fare r))
       (filter (\<lambda>r. total_amount r \<noteq> None \<and> congestion_surcharge r \<noteq> None) rows)"
  unfolding map_filter_id_map
  using assms
proof (induction rows)
  case Nil
  then show ?case by simp
next
  case (Cons r rows)
  then obtain f where f: "fare r = Some f" "0 < f" by auto
  from Cons have "List.map_filter tip_ratio rows =
     map (\<lambda>r. (the (total_amount r) - the (fare r) - the (congestion_surcharge r)) / the (fare r))
       (filter (\<lambda>r. total_amount r \<noteq> None \<and> congestion_surcharge r \<noteq> None) rows)"
    by simp
  then show ?case
    by (simp add: tip_ratio_positive_fare [OF f])
qed

lemma avg_tip_percent_eq:
  "avg_tip_percent (analyze_fairness clean) =
     (let known = filter (\<lambda>r. total_amount r \<noteq> None \<and> congestion_surcharge r \<noteq> None)
                    (fairness_rows clean)
      in if known = [] then None
         else Some (sum_list (map (\<lambda>r. (the (total_amount r) - the (fare r) - the (congestion_surcharge r))
                                        / the (fare r)) known)
                    / of_nat (length known) * 100))"
proof -
  have "\<forall>r\<in>set (fairness_rows clean). \<exists>f. fare r = Some f \<and> 0 < f"
    by (simp add: set_fairness_rows)
  from known_tips [OF this] show ?thesis
    by (simp add: analyze_fairness_def sql_avg_def sql_mul_def Let_def)
qed

lemma short_trip_count_eq:
  "short_trip_count (analyze_fairness clean) =
     (if fairness_rows clean = [] then None
      else Some (int (length (filter (\<lambda>r. is_true (is_short_trip r)) (fairness_rows clean)))))"
  by (simp add: analyze_fairness_def Let_def sql_sum_indicator)

lemma duration_trip_to: "duration_hrs (trip_to z f s) = Some (1 / 6)"
  by (simp add: trip_to_def mk_trip_def duration_hrs_def sql_defs ts_defs)

lemma clean_trip_to: "f \<le> 20 \<Longrightarrow> clean_logic (trip_to z f s) = Some True"
  by (simp add: clean_logic_def audit_logic_def is_physics_fail_def is_teleporter_def
      is_stationary_def speed_mph_def duration_trip_to sql_defs)
     (simp add: trip_to_def mk_trip_def)

lemma short_trip_to_48: "is_short_trip (trip_to 48 f s) = Some True"
  by (simp add: is_short_trip_def trip_to_def mk_trip_def CONGESTION_ZONE_IDS_def sql_defs)

lemma short_short_fast: "is_short_trip trip_short_fast = Some False"
  by (simp add: is_short_trip_def trip_short_fast_def mk_trip_def CONGESTION_ZONE_IDS_def sql_defs)

lemma avg_tip_percent_known:
  assumes ne: "fairness_rows clean \<noteq> []"
    and known: "\<forall>r\<in>set (fairness_rows clean). total_amount r \<noteq> None \<and> congestion_surcharge r \<noteq> None"
  shows "avg_tip_percent (analyze_fairness clean) =
     Some (sum_list (map (\<lambda>r. (the (total_amount r) - the (fare r) - the (congestion_surcharge r))
                               / the (fare r)) (fairness_rows clean))
           / of_nat (length (fairness_rows clean)) * 100)"
proof -
  have "filter (\<lambda>r. total_amount r \<noteq> None \<and> congestion_surcharge r \<noteq> None) (fairness_rows clean)
      = fairness_rows clean"
    using known by (simp add: filter_id_conv)
  then show ?thesis
    using ne by (simp add: avg_tip_percent_eq Let_def)
qed

lemma fairness_empty:
  assumes "fairness_rows clean = []"
  shows "avg_tip_percent (analyze_fairness clean) = None \<and>
         short_trip_count (analyze_fairness clean) = None"
  using assms by (simp add: avg_tip_percent_eq short_trip_count_eq)

lemma fairness_rows_free_trip: "fairness_rows [trip_to 48 0 0] = []"
  by (simp add: fairness_rows_def trip_to_def mk_trip_def sql_gt_def is_true_def)

text \<open>
  C9, the claim as stated fails for the short-trip count: the query has one
  \<open>WHERE fare > 0\<close> in front of both aggregates.  Of two clean records, one of fare 5
  ending outside the zone and one of fare 0 and one mile ending in zone 48, the second is
  a short trip into the zone, yet \<^verbatim>\<open>short_trip_count\<close> is 0; and over that second
  record alone no row is left, so \<^verbatim>\<open>short_trip_count\<close> is NULL rather than 1.
\<close>

theorem short_trip_fare_filter_counterexample:
  "clean_rows [trip_short_fast, trip_to 48 0 0] = [trip_short_fast, trip_to 48 0 0] \<and>
   length (filter (\<lambda>r. is_true (is_short_trip r)) [trip_short_fast, trip_to 48 0 0]) = 1 \<and>
   short_trip_count (analyze_fairness [trip_short_fast, trip_to 48 0 0]) = Some 0 \<and>
   clean_rows [trip_to 48 0 0] = [trip_to 48 0 0] \<and>
   length (filter (\<lambda>r. is_true (is_short_trip r)) [trip_to 48 0 0]) = 1 \<and>
   short_trip_count (analyze_fairness [trip_to 48 0 0]) = None"
proof -
  have c: "clean_logic trip_short_fast = Some True"
    by (rule clean_short_fast)
  have rows: "fairness_rows [trip_short_fast, trip_to 48 0 0] = [trip_short_fast]"
    by (simp add: fairness_rows_def trip_short_fast_def trip_to_def mk_trip_def sql_gt_def is_true_def)
  show ?thesis
    by (simp add: clean_rows_def c clean_trip_to short_trip_count_eq rows fairness_rows_free_trip
        short_trip_to_48 short_short_fast is_true_def)
qed

text \<open>
  C9, amended.  Both aggregates of \<^verbatim>\<open>analyze_fairness\<close> range over the clean records with
  a known fare above 0.  When every one of them has a total amount and a congestion
  surcharge, \<^verbatim>\<open>avg_tip_percent\<close> is the average of
  (total_amount - fare - congestion_surcharge) / fare over them, times 100;
  \<^verbatim>\<open>short_trip_count\<close> is the number of them with a distance below 2 miles and a
  dropoff zone in \<open>CongestionZone\<close>; and both are NULL when no clean record has a fare
  above 0.  Records with a NULL total or surcharge are outside this statement.
\<close>

theorem fairness_aggregation:
  "(fairness_rows clean \<noteq> [] \<and>
    (\<forall>r\<in>set (fairness_rows clean). total_amount r \<noteq> None \<and> congestion_surcharge r \<noteq> None) \<longrightarrow>
      avg_tip_percent (analyze_fairness clean) =
        Some (sum_list (map (\<lambda>r. (the (total_amount r) - the (fare r) - the (congestion_surcharge r))
                                  / the (fare r)) (fairness_rows clean))
              / of_nat (length (fairness_rows clean)) * 100)) \<and>
   (fairness_rows clean \<noteq> [] \<longrightarrow>
      short_trip_count (analyze_fairness clean) =
        Some (int (length (filter (\<lambda>r. is_true (is_short_trip r)) (fairness_rows clean))))) \<and>
   (fairness_rows clean = [] \<longrightarrow>
      avg_tip_percent (analyze_fairness clean) = None \<and>
      short_trip_count (analyze_fairness clean) = None) \<and>
   (r \<in> set (fairness_rows clean) \<longleftrightarrow> r \<in> set clean \<and> (\<exists>f. fare r = Some f \<and> 0 < f)) \<and>
   (is_true (is_short_trip r) \<longleftrightarrow>
     (\<exists>d z. trip_distance r = Some d \<and> d < 2 \<and> dropoff_loc r = Some z \<and> z \<in> set CONGESTION_ZONE_IDS))"
proof (intro conjI impI)
  assume "fairness_rows clean \<noteq> [] \<and>
    (\<forall>r\<in>set (fairness_rows clean). total_amount r \<noteq> None \<and> congestion_surcharge r \<noteq> None)"
  then show "avg_tip_percent (analyze_fairness clean) =
        Some (sum_list (map (\<lambda>r. (the (total_amount r) - the (fare r) - the (congestion_surcharge r))
                                  / the (fare r)) (fairness_rows clean))
              / of_nat (length (fairness_rows clean)) * 100)"
    by (simp add: avg_tip_percent_known)
next
  assume "fairness_rows clean \<noteq> []"
  then show "short_trip_count (analyze_fairness clean) =
        Some (int (length (filter (\<lambda>r. is_true (is_short_trip r)) (fairness_rows clean))))"
    by (simp add: short_trip_count_eq)
next
  assume e: "fairness_rows clean = []"
  show "avg_tip_percent (analyze_fairness clean) = None"
    using fairness_empty [OF e] by simp
  show "short_trip_count (analyze_fairness clean) = None"
    using fairness_empty [OF e] by simp
next
  show "r \<in> set (fairness_rows clean) \<longleftrightarrow> r \<in> set clean \<and> (\<exists>f. fare r = Some f \<and> 0 < f)"
    by (rule set_fairness_rows)
next
  show "is_true (is_short_trip r) \<longleftrightarrow>
     (\<exists>d z. trip_distance r = Some d \<and> d < 2 \<and> dropoff_loc r = Some z \<and> z \<in> set CONGESTION_ZONE_IDS)"
    by (rule short_trip_iff)
qed

theorem fairness_aggregation_witness:
  "fairness_rows [trip_to 48 8 0, trip_to 1 10 0, trip_to 48 0 0] = [trip_to 48 8 0, trip_to 1 10 0] \<and>
   total_amount (trip_to 48 8 0) = Some 10 \<and> congestion_surcharge (trip_to 48 8 0) = Some 0 \<and>
   total_amount (trip_to 1 10 0) = Some 12 \<and> congestion_surcharge (trip_to 1 10 0) = Some 0 \<and>
   avg_tip_percent (analyze_fairness [trip_to 48 8 0, trip_to 1 10 0, trip_to 48 0 0]) = Some (45 / 2) \<and>
   short_trip_count (analyze_fairness [trip_to 48 8 0, trip_to 1 10 0, trip_to 48 0 0]) = Some 1 \<and>
   fairness_rows [trip_to 48 0 0] = [] \<and>
   avg_tip_percent (analyze_fairness [trip_to 48 0 0]) = None"
proof -
  let ?xs = "[trip_to 48 8 0, trip_to 1 10 0, trip_to 48 0 0]"
  have rows: "fairness_rows ?xs = [trip_to 48 8 0, trip_to 1 10 0]"
    by (simp add: fairness_rows_def trip_to_def mk_trip_def sql_gt_def is_true_def)
  have flds: "total_amount (trip_to 48 8 0) = Some 10" "congestion_surcharge (trip_to 48 8 0) = Some 0"
    "total_amount (trip_to 1 10 0) = Some 12" "congestion_surcharge (trip_to 1 10 0) = Some 0"
    "fare (trip_to 48 8 0) = Some 8" "fare (trip_to 1 10 0) = Some 10"
    by (simp_all add: trip_to_def mk_trip_def)
  have s: "is_short_trip (trip_to 1 10 0) = Some False"
    by (simp add: is_short_trip_def trip_to_def mk_trip_def CONGESTION_ZONE_IDS_def sql_defs)
  have h1: "fairness_rows ?xs \<noteq> [] \<and>
    (\<forall>r\<in>set (fairness_rows ?xs). total_amount r \<noteq> None \<and> congestion_surcharge r \<noteq> None)"
    by (simp add: rows flds)
  have h2: "fairness_rows ?xs \<noteq> []"
    by (simp add: rows)
  note T = fairness_aggregation [where clean = ?xs]
  note E = fairness_aggregation [where clean = "[trip_to 48 0 0]"]
  have a: "avg_tip_percent (analyze_fairness ?xs) = Some (45 / 2)"
    unfolding T [THEN conjunct1, THEN mp, OF h1] by (simp add: rows flds)
  have b: "short_trip_count (analyze_fairness ?xs) = Some 1"
    unfolding T [THEN conjunct2, THEN conjunct1, THEN mp, OF h2]
    by (simp add: rows s short_trip_to_48 is_true_def)
  have c: "avg_tip_percent (analyze_fairness [trip_to 48 0 0]) = None"
    using E [THEN conjunct2, THEN conjunct2, THEN conjunct1, THEN mp, OF fairness_rows_free_trip]
    by simp
  show ?thesis
    by (simp add: rows flds a b c fairness_rows_free_trip)
qed

subsection \<open>The border effect\<close>

lemma sql_eq_true: "is_true (sql_eq x y) \<longleftrightarrow> (\<exists>k. x = Some k \<and> y = Some k)"
  by (cases x; cases y) (auto simp: sql_eq_def is_true_def)

lemma sql_in_true: "is_true (sql_in x vs) \<longleftrightarrow> (\<exists>k. x = Some k \<and> k \<in> set vs)"
  by (cases x) (auto simp: sql_in_def is_true_def)

lemma group_count_row:
  "(z, c) \<in> set (group_count (map f (filter P xs))) \<longleftrightarrow>
     (\<exists>x\<in>set xs. P x \<and> f x = z) \<and> c = int (length (filter (\<lambda>x. P x \<and> f x = z) xs))"
  by (auto simp: set_group_count count_list_map_filter)

lemma group_row_generic:
  assumes "\<And>x. P x \<and> f x = z \<longleftrightarrow> K \<and> Q x"
  shows "(z, c) \<in> set (group_count (map f (filter P xs))) \<longleftrightarrow>
     K \<and> 0 < c \<and> c = int (length (filter Q xs))"
proof (cases K)
  case True
  with assms have "filter (\<lambda>x. P x \<and> f x = z) xs = filter Q xs"
    by (intro filter_cong refl) simp
  moreover have "(\<exists>x\<in>set xs. P x \<and> f x = z) \<longleftrightarrow> filter Q xs \<noteq> []"
    using assms True by (simp add: filter_empty_conv)
  ultimately show ?thesis
    using True by (auto simp: group_count_row)
next
  case False
  with assms show ?thesis
    by (simp add: group_count_row)
qed

lemma q_24_row:
  "(z, c) \<in> set (q_24 raw) \<longleftrightarrow>
     (\<exists>k. z = Some k \<and> k \<in> set BORDER_ZONES) \<and>
     0 < c \<and> c = int (length (filter (\<lambda>x. DOLocationID x = z) raw))"
  unfolding q_24_def
  by (rule group_row_generic) (auto simp: sql_in_true)

lemma q_25_filter:
  "is_true (sql_and (sql_in (dropoff_loc r) BORDER_ZONES) (sql_in (sql_month (pickup_time r)) [1, 2, 3]))
     \<longleftrightarrow> (\<exists>k. dropoff_loc r = Some k \<and> k \<in> set BORDER_ZONES) \<and>
         (\<exists>t. pickup_time r = Some t \<and> ts_month t \<in> {1, 2, 3})"
  by (cases "dropoff_loc r"; cases "pickup_time r")
     (auto simp: sql_and_def sql_in_def sql_month_def is_true_def)

lemma q_25_row:
  "(z, c) \<in> set (q_25 clean) \<longleftrightarrow>
     (\<exists>k. z = Some k \<and> k \<in> set BORDER_ZONES) \<and>
     0 < c \<and>
     c = int (length (filter (\<lambda>r. dropoff_loc r = z \<and>
                (\<exists>t. pickup_time r = Some t \<and> ts_month t \<in> {1, 2, 3})) clean))"
  unfolding q_25_def
  by (rule group_row_generic) (unfold q_25_filter, blast)

lemma set_border_join:
  "row \<in> set (border_join t24 t25) \<longleftrightarrow>
     (\<exists>a\<in>set t24. \<exists>b\<in>set t25. is_true (sql_eq (fst a) (fst b)) \<and> row = border_select a b)"
  by (auto simp: border_join_def)

lemma set_plot_border_effect:
  "set (plot_border_effect raw clean) = set (border_join (q_24 raw) (q_25 clean))"
  by (simp add: plot_border_effect_def)

lemma border_row_iff:
  "row \<in> set (plot_border_effect raw clean) \<longleftrightarrow>
     (\<exists>k c24 c25. (Some k, c24) \<in> set (q_24 raw) \<and> (Some k, c25) \<in> set (q_25 clean) \<and>
        row = \<lparr>ZoneID = Some k,
               pct_change = Some (of_int (c25 - c24) / of_int c24 * 100),
               location_type = (if k \<in> set CONGESTION_ZONE_IDS then ''Inside Zone'' else ''Outside Zone'')\<rparr>)"
proof
  assume "row \<in> set (plot_border_effect raw clean)"
  then obtain a b where ab: "a \<in> set (q_24 raw)" "b \<in> set (q_25 clean)"
      "is_true (sql_eq (fst a) (fst b))" "row = border_select a b"
    by (auto simp: set_plot_border_effect set_border_join)
  then obtain k where k: "fst a = Some k" "fst b = Some k"
    by (auto simp: sql_eq_true)
  obtain c24 c25 where c: "a = (Some k, c24)" "b = (Some k, c25)"
    using k by (cases a; cases b) auto
  have "0 < c24" using ab(1) unfolding c(1) q_24_row by blast
  then have "row = \<lparr>ZoneID = Some k,
               pct_change = Some (of_int (c25 - c24) / of_int c24 * 100),
               location_type = (if k \<in> set CONGESTION_ZONE_IDS then ''Inside Zone'' else ''Outside Zone'')\<rparr>"
    using ab(4) c by (simp add: border_select_def sql_div_def sql_mul_def sql_in_def is_true_def)
  with ab c show "\<exists>k c24 c25. (Some k, c24) \<in> set (q_24 raw) \<and> (Some k, c25) \<in> set (q_25 clean) \<and>
        row = \<lparr>ZoneID = Some k,
               pct_change = Some (of_int (c25 - c24) / of_int c24 * 100),
               location_type = (if k \<in> set CONGESTION_ZONE_IDS then ''Inside Zone'' else ''Outside Zone'')\<rparr>"
    by blast
next
  assume "\<exists>k c24 c25. (Some k, c24) \<in> set (q_24 raw) \<and> (Some k, c25) \<in> set (q_25 clean) \<and>
        row = \<lparr>ZoneID = Some k,
               pct_change = Some (of_int (c25 - c24) / of_int c24 * 100),
               location_type = (if k \<in> set CONGESTION_ZONE_IDS then ''Inside Zone'' else ''Outside Zone'')\<rparr>"
  then obtain k c24 c25 where h: "(Some k, c24) \<in> set (q_24 raw)" "(Some k, c25) \<in> set (q_25 clean)"
     "row = \<lparr>ZoneID = Some k,
               pct_change = Some (of_int (c25 - c24) / of_int c24 * 100),
               location_type = (if k \<in> set CONGESTION_ZONE_IDS then ''Inside Zone'' else ''Outside Zone'')\<rparr>"
    by blast
  have "0 < c24" using h(1) unfolding q_24_row by blast
  then have "row = border_select (Some k, c24) (Some k, c25)"
    using h(3) by (simp add: border_select_def sql_div_def sql_mul_def sql_in_def is_true_def)
  moreover have "is_true (sql_eq (fst (Some k, c24)) (fst (Some k, c25)))"
    by (simp add: sql_eq_true)
  ultimately show "row \<in> set (plot_border_effect raw clean)"
    using h(1,2) unfolding set_plot_border_effect set_border_join by blast
qed

lemma border_zone_iff:
  "z \<in> ZoneID ` set (plot_border_effect raw clean) \<longleftrightarrow>
     z \<in> fst ` set (q_24 raw) \<and> z \<in> fst ` set (q_25 clean)"
proof
  assume "z \<in> ZoneID ` set (plot_border_effect raw clean)"
  then obtain row where "row \<in> set (plot_border_effect raw clean)" "z = ZoneID row" by auto
  then show "z \<in> fst ` set (q_24 raw) \<and> z \<in> fst ` set (q_25 clean)"
    by (force simp: border_row_iff)
next
  assume "z \<in> fst ` set (q_24 raw) \<and> z \<in> fst ` set (q_25 clean)"
  then obtain c24 c25 where c: "(z, c24) \<in> set (q_24 raw)" "(z, c25) \<in> set (q_25 clean)"
    by auto
  then obtain k where "z = Some k" by (auto simp: q_24_row)
  with c have "\<lparr>ZoneID = Some k,
               pct_change = Some (of_int (c25 - c24) / of_int c24 * 100),
               location_type = (if k \<in> set CONGESTION_ZONE_IDS then ''Inside Zone'' else ''Outside Zone'')\<rparr>
      \<in> set (plot_border_effect raw clean)"
    unfolding border_row_iff by blast
  then show "z \<in> ZoneID ` set (plot_border_effect raw clean)"
    using \<open>z = Some k\<close> by force
qed

lemma raw_to_drop: "DOLocationID (raw_to z) = Some z"
  by (simp add: raw_to_def)

lemma trip_to_fields:
  "dropoff_loc (trip_to z f s) = Some z \<and> sql_month (pickup_time (trip_to z f s)) = Some 2"
  by (simp add: trip_to_def mk_trip_def mk_ts_def sql_month_def)

lemma q_24_baseline: "q_24 baseline_rows = [(Some 43, 1), (Some 48, 2), (Some 50, 1)]"
  by (simp add: q_24_def baseline_rows_def raw_to_drop BORDER_ZONES_def
      group_count_def sql_in_def is_true_def)

lemma q_25_comparison: "q_25 comparison_rows = [(Some 48, 1), (Some 50, 3), (Some 74, 1)]"
  by (simp add: q_25_def comparison_rows_def trip_to_fields BORDER_ZONES_def
      group_count_def sql_in_def sql_and_def is_true_def)

lemma border_join_example:
  "border_join (q_24 baseline_rows) (q_25 comparison_rows) =
     [\<lparr>ZoneID = Some 48, pct_change = Some (- 50), location_type = ''Inside Zone''\<rparr>,
      \<lparr>ZoneID = Some 50, pct_change = Some 200, location_type = ''Inside Zone''\<rparr>]"
  by (simp add: q_24_baseline q_25_comparison border_join_def
      border_select_def CONGESTION_ZONE_IDS_def sql_eq_def sql_in_def sql_div_def sql_mul_def
      is_true_def)

lemma border_effect_example:
  "plot_border_effect baseline_rows comparison_rows =
     [\<lparr>ZoneID = Some 50, pct_change = Some 200, location_type = ''Inside Zone''\<rparr>,
      \<lparr>ZoneID = Some 48, pct_change = Some (- 50), location_type = ''Inside Zone''\<rparr>]"
  by (simp add: plot_border_effect_def border_join_example)

text \<open>
  C8.  The two count tables hold one row per border zone with at least one drop-off: the
  baseline one counts the raw 2024 rows dropped off in the zone, the comparison one the
  clean records dropped off there with a pickup in January to March.  The output has a
  zone exactly when both tables have it (the join is an inner join on the zone id), and
  its rows are exactly the rows of such a zone \<open>k\<close> with
  \<open>pct_change = (count_new - count_old) / count_old * 100\<close> and "Inside Zone" when \<open>k\<close>
  is in \<open>CongestionZone\<close>, "Outside Zone" otherwise.  With baseline zones 43, 48, 50 and
  comparison zones 48, 50, 74 the output zones are 48 and 50.
\<close>

theorem border_effect:
  "(z \<in> ZoneID ` set (plot_border_effect raw clean) \<longleftrightarrow>
      z \<in> fst ` set (q_24 raw) \<and> z \<in> fst ` set (q_25 clean)) \<and>
   ((z, c) \<in> set (q_24 raw) \<longleftrightarrow>
      (\<exists>k. z = Some k \<and> k \<in> set BORDER_ZONES) \<and>
      0 < c \<and> c = int (length (filter (\<lambda>x. DOLocationID x = z) raw))) \<and>
   ((z, c) \<in> set (q_25 clean) \<longleftrightarrow>
      (\<exists>k. z = Some k \<and> k \<in> set BORDER_ZONES) \<and>
      0 < c \<and>
      c = int (length (filter (\<lambda>r. dropoff_loc r = z \<and>
                 (\<exists>t. pickup_time r = Some t \<and> ts_month t \<in> {1, 2, 3})) clean))) \<and>
   (row \<in> set (plot_border_effect raw clean) \<longleftrightarrow>
      (\<exists>k c24 c25. (Some k, c24) \<in> set (q_24 raw) \<and> (Some k, c25) \<in> set (q_25 clean) \<and>
         row = \<lparr>ZoneID = Some k,
                pct_change = Some (of_int (c25 - c24) / of_int c24 * 100),
                location_type =
                  (if k \<in> set CONGESTION_ZONE_IDS then ''Inside Zone'' else ''Outside Zone'')\<rparr>)) \<and>
   fst ` set (q_24 baseline_rows) = {Some 43, Some 48, Some 50} \<and>
   fst ` set (q_25 comparison_rows) = {Some 48, Some 50, Some 74} \<and>
   ZoneID ` set (plot_border_effect baseline_rows comparison_rows) = {Some 48, Some 50}"
proof (intro conjI)
  show "z \<in> ZoneID ` set (plot_border_effect raw clean) \<longleftrightarrow>
      z \<in> fst ` set (q_24 raw) \<and> z \<in> fst ` set (q_25 clean)"
    by (rule border_zone_iff)
  show "(z, c) \<in> set (q_24 raw) \<longleftrightarrow>
      (\<exists>k. z = Some k \<and> k \<in> set BORDER_ZONES) \<and>
      0 < c \<and> c = int (length (filter (\<lambda>x. DOLocationID x = z) raw))"
    by (rule q_24_row)
  show "(z, c) \<in> set (q_25 clean) \<longleftrightarrow>
      (\<exists>k. z = Some k \<and> k \<in> set BORDER_ZONES) \<and>
      0 < c \<and>
      c = int (length (filter (\<lambda>r. dropoff_loc r = z \<and>
                 (\<exists>t. pickup_time r = Some t \<and> ts_month t \<in> {1, 2, 3})) clean))"
    by (rule q_25_row)
  show "row \<in> set (plot_border_effect raw clean) \<longleftrightarrow>
      (\<exists>k c24 c25. (Some k, c24) \<in> set (q_24 raw) \<and> (Some k, c25) \<in> set (q_25 clean) \<and>
         row = \<lparr>ZoneID = Some k,
                pct_change = Some (of_int (c25 - c24) / of_int c24 * 100),
                location_type =
                  (if k \<in> set CONGESTION_ZONE_IDS then ''Inside Zone'' else ''Outside Zone'')\<rparr>)"
    by (rule border_row_iff)
  show "fst ` set (q_24 baseline_rows) = {Some 43, Some 48, Some 50}"
    by (simp add: q_24_baseline)
  show "fst ` set (q_25 comparison_rows) = {Some 48, Some 50, Some 74}"
    by (simp add: q_25_comparison)
  show "ZoneID ` set (plot_border_effect baseline_rows comparison_rows) = {Some 48, Some 50}"
    unfolding border_effect_example by (simp add: insert_commute)
qed

theorem border_effect_witness:
  "Some 48 \<in> fst ` set (q_24 baseline_rows) \<and>
   Some 48 \<in> fst ` set (q_25 comparison_rows) \<and>
   Some 48 \<in> ZoneID ` set (plot_border_effect baseline_rows comparison_rows) \<and>
   Some 43 \<in> fst ` set (q_24 baseline_rows) \<and>
   Some 43 \<notin> fst ` set (q_25 comparison_rows) \<and>
   Some 43 \<notin> ZoneID ` set (plot_border_effect baseline_rows comparison_rows)"
proof -
  have a: "Some 48 \<in> fst ` set (q_24 baseline_rows)" "Some 48 \<in> fst ` set (q_25 comparison_rows)"
      "Some 43 \<in> fst ` set (q_24 baseline_rows)" "Some 43 \<notin> fst ` set (q_25 comparison_rows)"
    by (simp_all add: q_24_baseline q_25_comparison)
  note t48 = border_effect [of "Some 48" baseline_rows comparison_rows, THEN conjunct1]
  note t43 = border_effect [of "Some 43" baseline_rows comparison_rows, THEN conjunct1]
  from a t48 t43 show ?thesis by blast
qed

end
